theory Spec2Isabelle
  imports Main
begin

section \<open>Data model\<close>

text \<open>
  Identifiers are strings, as in the TypeScript source. A \<open>user_id\<close> is the string an access
  token or an event carries, a \<open>socket_id\<close> is \<open>socket.id\<close>, and an \<open>object_id\<close> is an
  \<open>ObjectId\<close> of the store, written as its \<open>toString()\<close>. The content of a message is a
  JavaScript string: a list of UTF-16 code units.
\<close>

type_synonym user_id = string
type_synonym socket_id = string
type_synonym object_id = string
type_synonym code_unit = nat
type_synonym js_string = "code_unit list"

text \<open>models/Message.ts: the \<open>status\<close> and \<open>messageType\<close> enums of the schema.\<close>

datatype msg_status = Sent | Delivered | Read

datatype msg_type = Text | Image | File

record message =
  m_id :: object_id
  sender :: object_id
  receiver :: object_id
  content :: js_string
  messageType :: msg_type
  status :: msg_status
  createdAt :: nat

text \<open>models/Friendship.ts: the \<open>status\<close> enum of the schema.\<close>

datatype friend_status = Pending | Accepted | Rejected | Blocked

record friendship =
  f_id :: object_id
  requester :: object_id
  recipient :: object_id
  f_status :: friend_status

text \<open>The fields of an account that the socket layer writes.\<close>

datatype presence = Online | Offline | Away

record user =
  u_status :: presence
  lastSeen :: nat

text \<open>
  The state of the server: the module-level \<open>onlineUsers\<close> map of the socket handler
  (\<open>new Map<string, string>()\<close>, keyed by the user id string of the token) and the three
  collections of the store.
\<close>

record state =
  onlineUsers :: "user_id \<rightharpoonup> socket_id"
  users :: "object_id \<rightharpoonup> user"
  messages :: "message list"
  friendships :: "friendship list"

text \<open>
  Every \<open>await\<close> on the store can throw. The call sites are named, and the environment
  of one handler run says which of them throw (store unavailable, write rejected). It also
  supplies what the run reads from outside: the clock (\<open>new Date()\<close>, timestamps), the
  \<open>_id\<close> the driver generates for a created document, \<open>mongoose.Types.ObjectId.isValid\<close>,
  the cast of a string to an \<open>ObjectId\<close> that mongoose applies to every id in a query or
  a document (\<open>None\<close> is a \<open>CastError\<close>), and \<open>verifyAccessToken\<close>, which wraps
  \<open>jwt.verify\<close>: \<open>None\<close> when it throws and otherwise the \<open>userId\<close> of the decoded
  payload.
\<close>

datatype dbcall =
    UserFindById | UserFindByIdAndUpdate
  | FriendshipFind | FriendshipFindOne | FriendshipCreate | FriendshipSave
  | FriendshipPopulate | FriendshipDeleteOne | FriendshipFindOneAndDelete
  | MessageFind | MessageFindById | MessageCreate | MessagePopulate | MessageSave
  | MessageUpdateMany

record env =
  fails :: "dbcall \<Rightarrow> bool"
  now :: nat
  newId :: object_id
  isValid :: "string \<Rightarrow> bool"
  castId :: "string \<Rightarrow> object_id option"
  verifyAccessToken :: "string \<Rightarrow> user_id option"

text \<open>Outbound socket events (the payloads of \<open>emit\<close>).\<close>

datatype event =
    UserOnline user_id
  | UserOffline user_id
  | ReceiveMessage message
  | MessageSent message
  | Typing user_id
  | StopTyping user_id
  | MessageRead string
  | Error string

text \<open>
  A response of the HTTP controllers is \<open>sendSuccess(res, message, data, code)\<close> or
  \<open>sendError(res, message, detail, code)\<close>; the detail string of an error is left out.
\<close>

datatype payload =
    NoData
  | MessagesData "message list" nat
  | MessageData message
  | FriendshipData friendship
  | Note string

datatype response = Success string payload nat | Failure string nat

text \<open>What the closure of an established connection holds.\<close>

record conn =
  c_sid :: socket_id
  c_userId :: user_id
  c_friendIds :: "string list"

text \<open>
  How a connection attempt ends: refused by the middleware, closed by the handler because
  \<open>socket.userId\<close> is falsy, established, or the handler's promise rejected at an
  un-caught \<open>await\<close> (the handlers of the socket are then never installed).
\<close>

datatype conn_result =
    Refused string
  | Closed
  | Established conn
  | Rejection

text \<open>
  What a handler puts out: an event emitted to a socket, the response of an HTTP request,
  or the end of a connection attempt.
\<close>

datatype outcome =
    Emit socket_id event
  | Respond response
  | ConnEnd conn_result

section \<open>Handlers as processes\<close>

text \<open>
  An \<open>async\<close> handler runs in phases. A phase is atomic: it is either one store call the
  handler awaits, which reads or writes the collections, or the synchronous code the
  handler runs when it resumes, which reads or writes the registry and emits. A phase
  gives the new state and its outputs, and, from the state it started in (what the store
  call returned), the rest of the handler. Between two phases of one handler the phases
  of other handlers can run.
\<close>

datatype proc = Done | Phase "state \<Rightarrow> state \<times> outcome list" "state \<Rightarrow> proc"

text \<open>Synchronous code that only emits; a store read; a store write.\<close>

definition emit :: "outcome list \<Rightarrow> proc" where
  "emit outs = Phase (\<lambda>st. (st, outs)) (\<lambda>st. Done)"

definition reading :: "(state \<Rightarrow> proc) \<Rightarrow> proc" where
  "reading k = Phase (\<lambda>st. (st, [])) k"

definition writing :: "(state \<Rightarrow> state) \<Rightarrow> (state \<Rightarrow> proc) \<Rightarrow> proc" where
  "writing w k = Phase (\<lambda>st. (w st, [])) k"

text \<open>
  A store write that can be rejected: when it is, the state stays and the handler goes on
  with \<open>failed\<close>; otherwise the handler goes on with what the call returned.
\<close>

definition attempt :: "(state \<Rightarrow> 'e + state \<times> 'a) \<Rightarrow> proc \<Rightarrow> ('a \<Rightarrow> proc) \<Rightarrow> proc" where
  "attempt f failed k =
     Phase (\<lambda>st. case f st of Inl err \<Rightarrow> (st, []) | Inr (st', x) \<Rightarrow> (st', []))
           (\<lambda>st. case f st of Inl err \<Rightarrow> failed | Inr (st', x) \<Rightarrow> k x)"

text \<open>A handler that nothing interrupts: its phases one after the other.\<close>

primrec complete :: "proc \<Rightarrow> state \<Rightarrow> state \<times> outcome list" where
  "complete Done st = (st, [])"
| "complete (Phase a k) st =
     (case a st of (st1, out) \<Rightarrow>
        (case complete (k st) st1 of (st2, out') \<Rightarrow> (st2, out @ out')))"

section \<open>Socket handler (socket/socketHandler.ts)\<close>

subsection \<open>Authentication middleware\<close>

text \<open>JavaScript's \<open>s.split(c)\<close> for a one-character separator.\<close>

fun js_split :: "char \<Rightarrow> string \<Rightarrow> string list" where
  "js_split c [] = [[]]"
| "js_split c (x # xs) =
     (if x = c then [] # js_split c xs
      else (case js_split c xs of [] \<Rightarrow> [[x]] | w # ws \<Rightarrow> (x # w) # ws))"

text \<open>Indexing past the end of an array gives \<open>undefined\<close>.\<close>

fun at :: "'a list \<Rightarrow> nat \<Rightarrow> 'a option" where
  "at [] n = None"
| "at (x # xs) 0 = Some x"
| "at (x # xs) (Suc n) = at xs n"

text \<open>Truthiness of a \<open>string | undefined\<close>: neither \<open>undefined\<close> nor the empty string.\<close>

fun truthy :: "string option \<Rightarrow> bool" where
  "truthy None = False"
| "truthy (Some s) = (s \<noteq> [])"

record handshake =
  auth_token :: "string option"
  authorization :: "string option"

record socket =
  s_id :: socket_id
  s_handshake :: handshake
  s_userId :: "user_id option"

text \<open>
  The middleware either calls \<open>next(err)\<close> (\<open>Inl\<close>, the connection is refused) or sets
  \<open>socket.userId\<close> and calls \<open>next()\<close>. It awaits nothing.
\<close>

definition handshake_token :: "handshake \<Rightarrow> string option" where
  "handshake_token h =
     (if truthy (auth_token h) then auth_token h
      else (case authorization h of None \<Rightarrow> None | Some a \<Rightarrow> at (js_split CHR '' '' a) 1))"

definition authMiddleware :: "env \<Rightarrow> socket \<Rightarrow> string + socket" where
  "authMiddleware e sock =
     (case handshake_token (s_handshake sock) of
        None \<Rightarrow> Inl ''Authentication error: No token provided''
      | Some token \<Rightarrow>
          if token = [] then Inl ''Authentication error: No token provided''
          else (case verifyAccessToken e token of
                  None \<Rightarrow> Inl ''Authentication error: Invalid token''
                | Some uid \<Rightarrow> Inr (sock\<lparr>s_userId := Some uid\<rparr>)))"

subsection \<open>Connection and disconnect\<close>

text \<open>
  The idiom \<open>const s = onlineUsers.get(id); if (s) io.to(s).emit(ev)\<close>, used for every
  event routed to a user.
\<close>

definition emitToUser :: "(user_id \<rightharpoonup> socket_id) \<Rightarrow> user_id \<Rightarrow> event \<Rightarrow> outcome list" where
  "emitToUser reg uid ev =
     (case reg uid of
        None \<Rightarrow> []
      | Some s \<Rightarrow> if s \<noteq> [] then [Emit s ev] else [])"

text \<open>\<open>User.findByIdAndUpdate\<close>: updates the account when it exists, otherwise nothing.\<close>

definition User_findByIdAndUpdate ::
  "(object_id \<rightharpoonup> user) \<Rightarrow> object_id \<Rightarrow> (user \<Rightarrow> user) \<Rightarrow> (object_id \<rightharpoonup> user)" where
  "User_findByIdAndUpdate us uid f =
     (case us uid of None \<Rightarrow> us | Some u \<Rightarrow> us(uid \<mapsto> f u))"

text \<open>
  The accepted relationships of the user, found with the cast id \<open>uid\<close>, and of each the
  other side: \<open>f.requester.toString() === userId ? f.recipient.toString() :
  f.requester.toString()\<close>, with the user id string of the token.
\<close>

definition friendIdsOf :: "user_id \<Rightarrow> object_id \<Rightarrow> friendship list \<Rightarrow> string list" where
  "friendIdsOf userId uid fs =
     map (\<lambda>f. if requester f = userId then recipient f else requester f)
       (filter (\<lambda>f. (requester f = uid \<or> recipient f = uid) \<and> f_status f = Accepted) fs)"

text \<open>
  The connection handler: \<open>onlineUsers.set\<close> runs before the first \<open>await\<close>; the account
  update and the lookup of the relationships are awaited without a \<open>try\<close>; the
  notifications go out, through the registry as it is then, when the lookup has returned.
\<close>

definition on_connection :: "env \<Rightarrow> socket \<Rightarrow> proc" where
  "on_connection e sock =
     (case s_userId sock of
        None \<Rightarrow> emit [ConnEnd Closed]
      | Some userId \<Rightarrow>
          if userId = [] then emit [ConnEnd Closed]
          else
            Phase (\<lambda>st. (st\<lparr>onlineUsers := (onlineUsers st)(userId \<mapsto> s_id sock)\<rparr>, []))
              (\<lambda>st.
                 if fails e UserFindByIdAndUpdate then emit [ConnEnd Rejection]
                 else
                   case castId e userId of
                     None \<Rightarrow> emit [ConnEnd Rejection]
                   | Some uid \<Rightarrow>
                       writing
                         (\<lambda>st. st\<lparr>users :=
                                  User_findByIdAndUpdate (users st) uid (\<lambda>u. u\<lparr>u_status := Online\<rparr>)\<rparr>)
                         (\<lambda>st.
                            if fails e FriendshipFind then emit [ConnEnd Rejection]
                            else
                              reading
                                (\<lambda>st.
                                   let friendIds = friendIdsOf userId uid (friendships st) in
                                   Phase
                                     (\<lambda>st. (st,
                                        concat (map (\<lambda>friendId.
                                                  emitToUser (onlineUsers st) friendId (UserOnline userId))
                                                friendIds)
                                        @ [ConnEnd (Established
                                             \<lparr>c_sid = s_id sock, c_userId = userId,
                                              c_friendIds = friendIds\<rparr>)]))
                                     (\<lambda>st. Done)))))"

text \<open>A connection attempt: the middleware, then the connection handler.\<close>

definition connect :: "env \<Rightarrow> socket \<Rightarrow> proc" where
  "connect e sock =
     (case authMiddleware e sock of
        Inl err \<Rightarrow> emit [ConnEnd (Refused err)]
      | Inr sock' \<Rightarrow> on_connection e sock')"

text \<open>
  The disconnect handler. \<open>onlineUsers.delete(userId)\<close> runs before the first \<open>await\<close>;
  when the account update throws, the rest is skipped.
\<close>

definition on_disconnect :: "env \<Rightarrow> conn \<Rightarrow> proc" where
  "on_disconnect e c =
     Phase (\<lambda>st. (st\<lparr>onlineUsers := (onlineUsers st)(c_userId c := None)\<rparr>, []))
       (\<lambda>st.
          if fails e UserFindByIdAndUpdate then Done
          else
            case castId e (c_userId c) of
              None \<Rightarrow> Done
            | Some uid \<Rightarrow>
                writing
                  (\<lambda>st. st\<lparr>users :=
                           User_findByIdAndUpdate (users st) uid
                             (\<lambda>u. u\<lparr>u_status := Offline, lastSeen := now e\<rparr>)\<rparr>)
                  (\<lambda>st.
                     Phase
                       (\<lambda>st. (st,
                          concat (map (\<lambda>friendId.
                                    emitToUser (onlineUsers st) friendId (UserOffline (c_userId c)))
                                  (c_friendIds c))))
                       (\<lambda>st. Done)))"

subsection \<open>The store calls of the message handlers\<close>

text \<open>
  models/Message.ts declares \<open>content\<close> with \<open>required\<close> and \<open>trim: true\<close>: the setter
  applies \<open>String.prototype.trim\<close> when the document is built, and validation rejects the
  document when nothing is left. \<open>trim\<close> removes the white space and the line terminators
  of ECMAScript from both ends: TAB, LF, VT, FF, CR, SPACE, NO-BREAK SPACE, OGHAM SPACE
  MARK, U+2000 to U+200A, LINE and PARAGRAPH SEPARATOR, NARROW NO-BREAK SPACE, MEDIUM
  MATHEMATICAL SPACE, IDEOGRAPHIC SPACE and the BYTE ORDER MARK, each one code unit.
\<close>

definition isSpace :: "code_unit \<Rightarrow> bool" where
  "isSpace c =
     (c \<in> {0x0009, 0x000A, 0x000B, 0x000C, 0x000D, 0x0020, 0x00A0, 0x1680, 0x2028, 0x2029,
            0x202F, 0x205F, 0x3000, 0xFEFF}
      \<or> (0x2000 \<le> c \<and> c \<le> 0x200A))"

definition trim :: "js_string \<Rightarrow> js_string" where
  "trim s = rev (dropWhile isSpace (rev (dropWhile isSpace s)))"

datatype store_error = StoreFailure | ValidationError | DuplicateKey

text \<open>
  \<open>updateOne\<close> and \<open>deleteOne\<close> of the store act on the first document that matches.
\<close>

fun updateOne :: "('a \<Rightarrow> bool) \<Rightarrow> ('a \<Rightarrow> 'a) \<Rightarrow> 'a list \<Rightarrow> 'a list" where
  "updateOne P f [] = []"
| "updateOne P f (x # xs) = (if P x then f x # xs else x # updateOne P f xs)"

fun deleteOne :: "('a \<Rightarrow> bool) \<Rightarrow> 'a list \<Rightarrow> 'a list" where
  "deleteOne P [] = []"
| "deleteOne P (x # xs) = (if P x then xs else x # deleteOne P xs)"

text \<open>
  \<open>Message.create({sender, receiver, content, messageType, status: 'sent'})\<close>, with the
  sender and the receiver already cast: the new document is appended to the collection
  and returned. The \<open>_id\<close> index of a collection is unique, so a document whose \<open>_id\<close> is
  already there is rejected.
\<close>

definition Message_create ::
  "env \<Rightarrow> message list \<Rightarrow> object_id \<Rightarrow> object_id \<Rightarrow> js_string \<Rightarrow> msg_type
     \<Rightarrow> store_error + (message list \<times> message)" where
  "Message_create e ms s r c t =
     (if fails e MessageCreate then Inl StoreFailure
      else if trim c = [] then Inl ValidationError
      else if newId e \<in> set (map m_id ms) then Inl DuplicateKey
      else
        let m = \<lparr>m_id = newId e, sender = s, receiver = r, content = trim c,
                 messageType = t, status = Sent, createdAt = now e\<rparr>
        in Inr (ms @ [m], m))"

text \<open>
  \<open>message.save()\<close> after an assignment to \<open>message.status\<close>: an \<open>updateOne\<close> by \<open>_id\<close>
  that sets the modified field, so the status of the stored document becomes the status
  of the in-memory document.
\<close>

definition Message_save :: "message list \<Rightarrow> message \<Rightarrow> message list" where
  "Message_save ms m = updateOne (\<lambda>x. m_id x = m_id m) (\<lambda>x. x\<lparr>status := status m\<rparr>) ms"

text \<open>
  \<open>Friendship.findOne({$or: [{requester: a, recipient: b}, {requester: b, recipient: a}],
  status: 'accepted'})\<close>, with \<open>a\<close> and \<open>b\<close> already cast: the first matching document.
\<close>

definition between :: "object_id \<Rightarrow> object_id \<Rightarrow> friendship \<Rightarrow> bool" where
  "between a b f =
     ((requester f = a \<and> recipient f = b) \<or> (requester f = b \<and> recipient f = a))"

definition findAccepted :: "friendship list \<Rightarrow> object_id \<Rightarrow> object_id \<Rightarrow> friendship option" where
  "findAccepted fs a b = find (\<lambda>f. between a b f \<and> f_status f = Accepted) fs"

subsection \<open>Event handlers of an established connection\<close>

record send_message_data =
  d_receiverId :: string
  d_content :: js_string
  d_messageType :: "msg_type option"

text \<open>
  \<open>send_message\<close>. The relationship lookup and \<open>Message.create\<close> take the user id of the
  connection and \<open>receiverId\<close> through the cast; \<open>onlineUsers.get(receiverId)\<close> takes the
  string of the event as it is. The handler awaits the lookup, the creation and
  \<open>populate\<close>; it then reads the registry and, when the receiver is there, awaits
  \<open>message.save()\<close> before it emits. Every throw ends in the \<open>catch\<close>, which emits \<open>error\<close>.
\<close>

definition send_message :: "env \<Rightarrow> conn \<Rightarrow> send_message_data \<Rightarrow> proc" where
  "send_message e c data =
     (let failed = emit [Emit (c_sid c) (Error ''Failed to send message'')];
          messageType = (case d_messageType data of None \<Rightarrow> Text | Some t \<Rightarrow> t)
      in
      if fails e FriendshipFindOne then failed
      else
        case (castId e (c_userId c), castId e (d_receiverId data)) of
          (Some a, Some b) \<Rightarrow>
            reading
              (\<lambda>st.
                 case findAccepted (friendships st) a b of
                   None \<Rightarrow> emit [Emit (c_sid c) (Error ''Not friends with this user'')]
                 | Some friendship \<Rightarrow>
                     attempt
                       (\<lambda>st. case Message_create e (messages st) a b (d_content data) messageType of
                                Inl err \<Rightarrow> Inl err
                              | Inr (ms, message) \<Rightarrow> Inr (st\<lparr>messages := ms\<rparr>, message))
                       failed
                       (\<lambda>message.
                          if fails e MessagePopulate then failed
                          else
                            reading
                              (\<lambda>st.
                                 Phase
                                   (\<lambda>st. (st,
                                      if truthy (onlineUsers st (d_receiverId data)) then []
                                      else [Emit (c_sid c) (MessageSent message)]))
                                   (\<lambda>st.
                                      case onlineUsers st (d_receiverId data) of
                                        None \<Rightarrow> Done
                                      | Some receiverSocketId \<Rightarrow>
                                          if receiverSocketId \<noteq> [] then
                                            let message' = message\<lparr>status := Delivered\<rparr> in
                                            if fails e MessageSave then failed
                                            else
                                              writing
                                                (\<lambda>st. st\<lparr>messages :=
                                                         Message_save (messages st) message'\<rparr>)
                                                (\<lambda>st. emit
                                                   [Emit receiverSocketId (ReceiveMessage message'),
                                                    Emit (c_sid c) (MessageSent message')])
                                          else Done))))
        | _ \<Rightarrow> failed)"

text \<open>\<open>typing\<close> and \<open>stop_typing\<close> await nothing.\<close>

definition typing :: "conn \<Rightarrow> user_id \<Rightarrow> proc" where
  "typing c rid =
     Phase (\<lambda>st. (st, emitToUser (onlineUsers st) rid (Typing (c_userId c)))) (\<lambda>st. Done)"

definition stop_typing :: "conn \<Rightarrow> user_id \<Rightarrow> proc" where
  "stop_typing c rid =
     Phase (\<lambda>st. (st, emitToUser (onlineUsers st) rid (StopTyping (c_userId c)))) (\<lambda>st. Done)"

text \<open>
  \<open>message_read\<close>: \<open>Message.findById\<close> casts the id of the event; the receiver of the
  message is compared, as a string, with the user id of the connection; after
  \<open>message.save()\<close> the receipt goes to \<open>message.sender.toString()\<close> through the registry and
  carries the id as the event spelt it. The \<open>catch\<close> only logs: nothing is emitted.
\<close>

definition message_read :: "env \<Rightarrow> conn \<Rightarrow> string \<Rightarrow> proc" where
  "message_read e c messageId =
     (if fails e MessageFindById then Done
      else
        case castId e messageId of
          None \<Rightarrow> Done
        | Some mid \<Rightarrow>
            reading
              (\<lambda>st.
                 case find (\<lambda>m. m_id m = mid) (messages st) of
                   None \<Rightarrow> Done
                 | Some message \<Rightarrow>
                     if receiver message = c_userId c then
                       let message' = message\<lparr>status := Read\<rparr> in
                       if fails e MessageSave then Done
                       else
                         writing
                           (\<lambda>st. st\<lparr>messages := Message_save (messages st) message'\<rparr>)
                           (\<lambda>st.
                              Phase
                                (\<lambda>st. (st,
                                   emitToUser (onlineUsers st) (sender message')
                                     (MessageRead messageId)))
                                (\<lambda>st. Done))
                     else Done))"

section \<open>Message controller (controllers/messageController.ts)\<close>

text \<open>
  \<open>Message.updateMany({sender: friendId, receiver: userId, status: {$ne: 'read'}},
  {status: 'read'})\<close> and its \<open>modifiedCount\<close>.
\<close>

definition unreadFrom :: "object_id \<Rightarrow> object_id \<Rightarrow> message \<Rightarrow> bool" where
  "unreadFrom friendId userId m =
     (sender m = friendId \<and> receiver m = userId \<and> status m \<noteq> Read)"

definition markRead :: "object_id \<Rightarrow> object_id \<Rightarrow> message list \<Rightarrow> message list" where
  "markRead friendId userId ms =
     map (\<lambda>m. if unreadFrom friendId userId m then m\<lparr>status := Read\<rparr> else m) ms"

text \<open>
  The page query: the conversation of the two users, newest first, \<open>skip\<close> documents
  dropped, at most \<open>limit\<close> kept (a limit of 0 is no limit). The query parameters are
  taken after \<open>Number(...)\<close>, with the defaults 50 and 0 of the destructuring.
\<close>

definition conversation :: "object_id \<Rightarrow> object_id \<Rightarrow> message \<Rightarrow> bool" where
  "conversation userId friendId m =
     ((sender m = userId \<and> receiver m = friendId) \<or> (sender m = friendId \<and> receiver m = userId))"

definition page :: "nat \<Rightarrow> nat \<Rightarrow> message list \<Rightarrow> message list" where
  "page lim skp ms =
     (let sorted = rev (sort_key createdAt ms); rest = drop skp sorted
      in if lim = 0 then rest else take lim rest)"

text \<open>
  \<open>getMessages\<close> awaits the relationship lookup, the page query and \<open>updateMany\<close>, and
  answers with the page and the count of the documents \<open>updateMany\<close> modified.
\<close>

definition getMessages :: "env \<Rightarrow> string \<Rightarrow> string \<Rightarrow> nat option \<Rightarrow> nat option \<Rightarrow> proc" where
  "getMessages e userId friendId limit skip =
     (let lim = (case limit of None \<Rightarrow> 50 | Some n \<Rightarrow> n);
          skp = (case skip of None \<Rightarrow> 0 | Some n \<Rightarrow> n);
          failed = emit [Respond (Failure ''Failed to retrieve messages'' 500)]
      in
      if \<not> isValid e friendId then emit [Respond (Failure ''Invalid friend ID'' 400)]
      else if fails e FriendshipFindOne then failed
      else
        case (castId e userId, castId e friendId) of
          (Some u, Some f) \<Rightarrow>
            reading
              (\<lambda>st.
                 case findAccepted (friendships st) u f of
                   None \<Rightarrow> emit [Respond (Failure ''Not friends'' 403)]
                 | Some friendship \<Rightarrow>
                     if fails e MessageFind then failed
                     else
                       reading
                         (\<lambda>st.
                            let found = page lim skp (filter (conversation u f) (messages st)) in
                            if fails e MessageUpdateMany then failed
                            else
                              writing
                                (\<lambda>st. st\<lparr>messages := markRead f u (messages st)\<rparr>)
                                (\<lambda>st. emit
                                   [Respond
                                      (Success ''Messages retrieved successfully''
                                         (MessagesData (rev found)
                                            (length (filter (unreadFrom f u) (messages st))))
                                         200)])))
        | _ \<Rightarrow> failed)"

definition sendMessage ::
  "env \<Rightarrow> string \<Rightarrow> string option \<Rightarrow> js_string option \<Rightarrow> msg_type option \<Rightarrow> proc" where
  "sendMessage e senderId rid cont mtype =
     (let failed = emit [Respond (Failure ''Failed to send message'' 500)];
          messageType = (case mtype of None \<Rightarrow> Text | Some t \<Rightarrow> t)
      in
      case (rid, cont) of
        (Some rcv, Some txt) \<Rightarrow>
          if rcv = [] \<or> txt = [] then emit [Respond (Failure ''Missing required fields'' 400)]
          else if \<not> isValid e rcv then emit [Respond (Failure ''Invalid receiver ID'' 400)]
          else if fails e FriendshipFindOne then failed
          else
            (case (castId e senderId, castId e rcv) of
               (Some a, Some b) \<Rightarrow>
                 reading
                   (\<lambda>st.
                      case findAccepted (friendships st) a b of
                        None \<Rightarrow> emit [Respond (Failure ''Not friends'' 403)]
                      | Some friendship \<Rightarrow>
                          attempt
                            (\<lambda>st. case Message_create e (messages st) a b txt messageType of
                                     Inl err \<Rightarrow> Inl err
                                   | Inr (ms, message) \<Rightarrow> Inr (st\<lparr>messages := ms\<rparr>, message))
                            failed
                            (\<lambda>message.
                               if fails e MessagePopulate then failed
                               else
                                 reading
                                   (\<lambda>st. emit
                                      [Respond (Success ''Message sent successfully''
                                                  (MessageData message) 201)])))
             | _ \<Rightarrow> failed)
      | _ \<Rightarrow> emit [Respond (Failure ''Missing required fields'' 400)])"

section \<open>Friend controller (controllers/friendController.ts)\<close>

text \<open>
  The controller modelled is the one the routes import: its \<open>rejectFriendRequest\<close> deletes
  the pending document.

  models/Friendship.ts declares one unique index, over the ordered pair
  \<open>{requester: 1, recipient: 1}\<close>: \<open>Friendship.create\<close> is rejected when a document with
  the same requester and the same recipient is stored (and when the \<open>_id\<close> is taken).
\<close>

definition Friendship_create ::
  "env \<Rightarrow> friendship list \<Rightarrow> object_id \<Rightarrow> object_id
     \<Rightarrow> store_error + (friendship list \<times> friendship)" where
  "Friendship_create e fs a b =
     (if fails e FriendshipCreate then Inl StoreFailure
      else if newId e \<in> set (map f_id fs) then Inl DuplicateKey
      else if (a, b) \<in> set (map (\<lambda>f. (requester f, recipient f)) fs) then Inl DuplicateKey
      else
        let f = \<lparr>f_id = newId e, requester = a, recipient = b, f_status = Pending\<rparr>
        in Inr (fs @ [f], f))"

text \<open>\<open>friendship.save()\<close> after an assignment to \<open>friendship.status\<close>.\<close>

definition Friendship_save :: "friendship list \<Rightarrow> friendship \<Rightarrow> friendship list" where
  "Friendship_save fs f =
     updateOne (\<lambda>x. f_id x = f_id f) (\<lambda>x. x\<lparr>f_status := f_status f\<rparr>) fs"

text \<open>
  \<open>sendFriendRequest\<close> awaits \<open>User.findById\<close>, then the lookup of a relationship in either
  direction and of any status, then \<open>Friendship.create\<close>, then \<open>populate\<close>. Only an
  \<open>accepted\<close> or a \<open>pending\<close> document stops the request.
\<close>

definition sendFriendRequest :: "env \<Rightarrow> string \<Rightarrow> string option \<Rightarrow> proc" where
  "sendFriendRequest e requesterId rid =
     (let failed = emit [Respond (Failure ''Failed to send friend request'' 500)] in
      case rid of
        None \<Rightarrow> emit [Respond (Failure ''Recipient ID required'' 400)]
      | Some recipientId \<Rightarrow>
          if recipientId = [] then emit [Respond (Failure ''Recipient ID required'' 400)]
          else if recipientId = requesterId then emit [Respond (Failure ''Invalid request'' 400)]
          else if fails e UserFindById then failed
          else
            (case castId e recipientId of
               None \<Rightarrow> failed
             | Some b \<Rightarrow>
                 reading
                   (\<lambda>st.
                      case users st b of
                        None \<Rightarrow> emit [Respond (Failure ''User not found'' 404)]
                      | Some u \<Rightarrow>
                          if fails e FriendshipFindOne then failed
                          else
                            (case castId e requesterId of
                               None \<Rightarrow> failed
                             | Some a \<Rightarrow>
                                 reading
                                   (\<lambda>st.
                                      let existingFriendship =
                                            find (between a b) (friendships st) in
                                      if (case existingFriendship of None \<Rightarrow> False
                                          | Some x \<Rightarrow> f_status x = Accepted)
                                      then emit [Respond (Failure ''Already friends'' 400)]
                                      else if (case existingFriendship of None \<Rightarrow> False
                                               | Some x \<Rightarrow> f_status x = Pending)
                                      then emit [Respond (Failure ''Request pending'' 400)]
                                      else
                                        attempt
                                          (\<lambda>st. case Friendship_create e (friendships st) a b of
                                                   Inl err \<Rightarrow> Inl err
                                                 | Inr (fs, f) \<Rightarrow> Inr (st\<lparr>friendships := fs\<rparr>, f))
                                          failed
                                          (\<lambda>f.
                                             if fails e FriendshipPopulate then failed
                                             else
                                               reading
                                                 (\<lambda>st. emit
                                                    [Respond (Success ''Friend request sent''
                                                                (FriendshipData f) 201)])))))))"

definition acceptFriendRequest :: "env \<Rightarrow> string \<Rightarrow> string \<Rightarrow> proc" where
  "acceptFriendRequest e userId requestId =
     (let failed = emit [Respond (Failure ''Failed to accept friend request'' 500)] in
      if \<not> isValid e requestId then emit [Respond (Failure ''Invalid request ID'' 400)]
      else if fails e FriendshipFindOne then failed
      else
        case (castId e requestId, castId e userId) of
          (Some r, Some u) \<Rightarrow>
            reading
              (\<lambda>st.
                 case find (\<lambda>f. f_id f = r \<and> recipient f = u \<and> f_status f = Pending)
                        (friendships st) of
                   None \<Rightarrow> emit [Respond (Failure ''Friend request not found'' 404)]
                 | Some f \<Rightarrow>
                     let f' = f\<lparr>f_status := Accepted\<rparr> in
                     if fails e FriendshipSave then failed
                     else
                       writing
                         (\<lambda>st. st\<lparr>friendships := Friendship_save (friendships st) f'\<rparr>)
                         (\<lambda>st.
                            if fails e FriendshipPopulate then failed
                            else
                              reading
                                (\<lambda>st. emit
                                   [Respond (Success ''Friend request accepted''
                                               (FriendshipData f') 200)])))
        | _ \<Rightarrow> failed)"

text \<open>
  \<open>rejectFriendRequest\<close> deletes the pending document, for the recipient (rejected) or the
  requester (cancelled).
\<close>

definition rejectFriendRequest :: "env \<Rightarrow> string \<Rightarrow> string \<Rightarrow> proc" where
  "rejectFriendRequest e userId requestId =
     (let failed = emit [Respond (Failure ''Failed to reject friend request'' 500)] in
      if \<not> isValid e requestId then emit [Respond (Failure ''Invalid request ID'' 400)]
      else if fails e FriendshipFindOne then failed
      else
        case (castId e requestId, castId e userId) of
          (Some r, Some u) \<Rightarrow>
            reading
              (\<lambda>st.
                 case find (\<lambda>f. f_id f = r \<and> (recipient f = u \<or> requester f = u)
                                  \<and> f_status f = Pending)
                        (friendships st) of
                   None \<Rightarrow> emit [Respond (Failure ''Friend request not found'' 404)]
                 | Some f \<Rightarrow>
                     let action = (if requester f = userId then ''cancelled'' else ''rejected'') in
                     if fails e FriendshipDeleteOne then failed
                     else
                       writing
                         (\<lambda>st. st\<lparr>friendships := deleteOne (\<lambda>x. f_id x = r) (friendships st)\<rparr>)
                         (\<lambda>st. emit
                            [Respond
                               (Success (''Friend request '' @ action)
                                  (Note ''Request deleted, user can send a new request if needed'')
                                  200)]))
        | _ \<Rightarrow> failed)"

text \<open>\<open>removeFriend\<close>: one call, \<open>findOneAndDelete\<close>, finds and deletes.\<close>

definition removeFriend :: "env \<Rightarrow> string \<Rightarrow> string \<Rightarrow> proc" where
  "removeFriend e userId friendId =
     (if \<not> isValid e friendId then emit [Respond (Failure ''Invalid friend ID'' 400)]
      else if fails e FriendshipFindOneAndDelete
      then emit [Respond (Failure ''Failed to remove friend'' 500)]
      else
        case (castId e userId, castId e friendId) of
          (Some u, Some f) \<Rightarrow>
            writing
              (\<lambda>st. st\<lparr>friendships :=
                       deleteOne (\<lambda>x. between u f x \<and> f_status x = Accepted) (friendships st)\<rparr>)
              (\<lambda>st.
                 case findAccepted (friendships st) u f of
                   None \<Rightarrow> emit [Respond (Failure ''Friendship not found'' 404)]
                 | Some x \<Rightarrow> emit [Respond (Success ''Friend removed successfully'' NoData 200)])
        | _ \<Rightarrow> emit [Respond (Failure ''Failed to remove friend'' 500)])"

section \<open>Runs of the system\<close>

text \<open>The operations of the system, and the handler of each.\<close>

datatype operation =
    Connect socket
  | Disconnect conn
  | SendMessageEvent conn send_message_data
  | TypingEvent conn user_id
  | StopTypingEvent conn user_id
  | MessageReadEvent conn string
  | GetMessages string string "nat option" "nat option"
  | SendMessage string "string option" "js_string option" "msg_type option"
  | SendFriendRequest string "string option"
  | AcceptFriendRequest string string
  | RejectFriendRequest string string
  | RemoveFriend string string

fun handler :: "env \<Rightarrow> operation \<Rightarrow> proc" where
  "handler e (Connect sock) = connect e sock"
| "handler e (Disconnect c) = on_disconnect e c"
| "handler e (SendMessageEvent c d) = send_message e c d"
| "handler e (TypingEvent c r) = typing c r"
| "handler e (StopTypingEvent c r) = stop_typing c r"
| "handler e (MessageReadEvent c m) = message_read e c m"
| "handler e (GetMessages u f l s) = getMessages e u f l s"
| "handler e (SendMessage u r c t) = sendMessage e u r c t"
| "handler e (SendFriendRequest u r) = sendFriendRequest e u r"
| "handler e (AcceptFriendRequest u r) = acceptFriendRequest e u r"
| "handler e (RejectFriendRequest u r) = rejectFriendRequest e u r"
| "handler e (RemoveFriend u f) = removeFriend e u f"

text \<open>
  A run of the system. The server holds the state, what has been put out so far, and the
  handlers in flight. An operation arrives (\<open>Start\<close>, with the environment its handler
  meets) and its handler joins those in flight; or the handler at some place goes on by
  one phase (\<open>Resume\<close>). Any list of such steps is a run: the phases of the handlers in
  flight interleave in any order.
\<close>

type_synonym config = "state \<times> outcome list \<times> proc list"

datatype action = Start env operation | Resume nat

fun perform :: "action \<Rightarrow> config \<Rightarrow> config" where
  "perform (Start e op) (st, tr, pool) = (st, tr, pool @ [handler e op])"
| "perform (Resume i) (st, tr, pool) =
     (if i < length pool then
        (case pool ! i of
           Done \<Rightarrow> (st, tr, pool)
         | Phase a k \<Rightarrow> (fst (a st), tr @ snd (a st), pool[i := k st]))
      else (st, tr, pool))"

fun interleave :: "action list \<Rightarrow> config \<Rightarrow> config" where
  "interleave [] cf = cf"
| "interleave (x # xs) cf = interleave xs (perform x cf)"

text \<open>A run in which every handler finishes before the next operation arrives.\<close>

fun sequential :: "(env \<times> operation) list \<Rightarrow> state \<Rightarrow> state" where
  "sequential [] st = st"
| "sequential ((e, op) # ops) st = sequential ops (fst (complete (handler e op) st))"

section \<open>Properties stated about the handlers and the stores\<close>

text \<open>
  Every phase of a process, started in any state, takes the state to one that is in
  relation \<open>R\<close> with it.
\<close>

primrec always :: "(state \<Rightarrow> state \<Rightarrow> bool) \<Rightarrow> proc \<Rightarrow> bool" where
  "always R Done = True"
| "always R (Phase a k) = (\<forall>st. R st (fst (a st)) \<and> always R (k st))"







text \<open>Counting the relationship documents of a pair.\<close>

definition live :: "friendship \<Rightarrow> bool" where
  "live f = (f_status f = Pending \<or> f_status f = Accepted)"

definition countBetween :: "friendship list \<Rightarrow> object_id \<Rightarrow> object_id \<Rightarrow> nat" where
  "countBetween fs a b = length (filter (between a b) fs)"

definition countFromTo :: "friendship list \<Rightarrow> object_id \<Rightarrow> object_id \<Rightarrow> nat" where
  "countFromTo fs a b = length (filter (\<lambda>f. requester f = a \<and> recipient f = b) fs)"

text \<open>
  The keys of a relationship document: its ordered pair, which the unique index is over,
  and its unordered pair. Two invariants of the collection: no two documents with the same
  \<open>_id\<close> and none with the same ordered pair (\<open>orderedInv\<close>); moreover every document
  pending or accepted and no two with the same unordered pair (\<open>pairInv\<close>).
\<close>

definition pairOf :: "friendship \<Rightarrow> object_id \<times> object_id" where
  "pairOf f = (requester f, recipient f)"

definition upair :: "friendship \<Rightarrow> object_id set" where
  "upair f = {requester f, recipient f}"

definition orderedInv :: "friendship list \<Rightarrow> bool" where
  "orderedInv fs = (distinct (map f_id fs) \<and> distinct (map pairOf fs))"

definition pairInv :: "friendship list \<Rightarrow> bool" where
  "pairInv fs = (distinct (map f_id fs) \<and> distinct (map upair fs) \<and> list_all live fs)"

text \<open>A step from \<open>st\<close> to \<open>st'\<close> keeps the invariant.\<close>

definition keepsOrdered :: "state \<Rightarrow> state \<Rightarrow> bool" where
  "keepsOrdered st st' = (orderedInv (friendships st) \<longrightarrow> orderedInv (friendships st'))"

definition keepsPairs :: "state \<Rightarrow> state \<Rightarrow> bool" where
  "keepsPairs st st' = (pairInv (friendships st) \<longrightarrow> pairInv (friendships st'))"

text \<open>
  The document that \<open>Message.create\<close> builds for a \<open>send_message\<close> event: the cast ids of
  the caller and the receiver, the trimmed content, the default type \<open>text\<close>, the status
  \<open>sent\<close>.
\<close>

definition createdMessage :: "env \<Rightarrow> object_id \<Rightarrow> object_id \<Rightarrow> send_message_data \<Rightarrow> message" where
  "createdMessage e a b d =
     \<lparr>m_id = newId e, sender = a, receiver = b, content = trim (d_content d),
      messageType = (case d_messageType d of None \<Rightarrow> Text | Some t \<Rightarrow> t),
      status = Sent, createdAt = now e\<rparr>"


section \<open>A concrete scenario\<close>

text \<open>
  The cast of the scenario is the one of the driver on hexadecimal strings: 24 digits,
  read without regard to case. The ids of the scenario are such strings.
\<close>

definition isHex :: "char \<Rightarrow> bool" where
  "isHex c = (c \<in> set ''0123456789abcdefABCDEF'')"

definition lower :: "char \<Rightarrow> char" where
  "lower c =
     (if c = CHR ''A'' then CHR ''a'' else if c = CHR ''B'' then CHR ''b''
      else if c = CHR ''C'' then CHR ''c'' else if c = CHR ''D'' then CHR ''d''
      else if c = CHR ''E'' then CHR ''e'' else if c = CHR ''F'' then CHR ''f'' else c)"

definition hexId :: "string \<Rightarrow> object_id option" where
  "hexId s = (if length s = 24 \<and> list_all isHex s then Some (map lower s) else None)"

definition alice :: string where "alice = ''aaaaaaaaaaaaaaaaaaaaaaaa''"

definition bob :: string where "bob = ''bbbbbbbbbbbbbbbbbbbbbbbb''"

definition BOB :: string where "BOB = ''BBBBBBBBBBBBBBBBBBBBBBBB''"

definition carol :: string where "carol = ''cccccccccccccccccccccccc''"

definition doc0 :: string where "doc0 = ''000000000000000000000000''"

definition doc1 :: string where "doc1 = ''000000000000000000000001''"

definition doc2 :: string where "doc2 = ''000000000000000000000002''"

text \<open>
  Two accounts with an accepted relationship, a working store, and the sockets used below:
  two connections of alice (the token once as \<open>auth.token\<close>, once as an
  \<open>Authorization: Bearer\<close> header), one without a token and one with a token that does not
  verify.
\<close>

definition demo_env :: env where
  "demo_env = \<lparr>fails = (\<lambda>c. False), now = 1000, newId = doc1,
     isValid = (\<lambda>s. hexId s \<noteq> None), castId = hexId,
     verifyAccessToken = (\<lambda>t. if t = ''tokenA'' then Some alice
                                else if t = ''tokenB'' then Some bob else None)\<rparr>"

definition demo_state :: state where
  "demo_state = \<lparr>onlineUsers = Map.empty,
     users = [alice \<mapsto> \<lparr>u_status = Offline, lastSeen = 0\<rparr>,
              bob \<mapsto> \<lparr>u_status = Offline, lastSeen = 0\<rparr>],
     messages = [],
     friendships = [\<lparr>f_id = doc0, requester = alice, recipient = bob, f_status = Accepted\<rparr>]\<rparr>"

definition alice1 :: socket where
  "alice1 = \<lparr>s_id = ''s1'', s_handshake = \<lparr>auth_token = Some ''tokenA'', authorization = None\<rparr>,
     s_userId = None\<rparr>"

definition alice2 :: socket where
  "alice2 = \<lparr>s_id = ''s2'', s_handshake = \<lparr>auth_token = None, authorization = Some ''Bearer tokenA''\<rparr>,
     s_userId = None\<rparr>"

definition anonymous :: socket where
  "anonymous = \<lparr>s_id = ''s3'', s_handshake = \<lparr>auth_token = None, authorization = None\<rparr>,
     s_userId = None\<rparr>"

definition forged :: socket where
  "forged = \<lparr>s_id = ''s4'',
     s_handshake = \<lparr>auth_token = Some ''invalid-token-12345'', authorization = None\<rparr>,
     s_userId = None\<rparr>"


definition alice1_conn :: conn where
  "alice1_conn = \<lparr>c_sid = ''s1'', c_userId = alice, c_friendIds = [bob]\<rparr>"

definition bob_conn :: conn where
  "bob_conn = \<lparr>c_sid = ''s5'', c_userId = bob, c_friendIds = [alice]\<rparr>"

definition twice_connected :: state where
  "twice_connected =
     fst (complete (connect demo_env alice2) (fst (complete (connect demo_env alice1) demo_state)))"


text \<open>
  Events of alice: a greeting to bob (\<open>hi\<close>), one whose content is a space and a no-break
  space, the greeting with bob's id in upper case, and one to a stranger. Bob's connection
  is on socket \<open>s5\<close>; \<open>chat_state\<close> holds one delivered message from alice to bob. In
  \<open>save_fails\<close> the store rejects \<open>message.save()\<close>.
\<close>

definition hello :: send_message_data where
  "hello = \<lparr>d_receiverId = bob, d_content = [104, 105], d_messageType = None\<rparr>"

definition blank :: send_message_data where
  "blank = \<lparr>d_receiverId = bob, d_content = [0x0020, 0x00A0], d_messageType = None\<rparr>"

definition respelt :: send_message_data where
  "respelt = \<lparr>d_receiverId = BOB, d_content = [104, 105], d_messageType = None\<rparr>"

definition to_carol :: send_message_data where
  "to_carol = \<lparr>d_receiverId = carol, d_content = [104, 105], d_messageType = None\<rparr>"

definition bob_online :: state where
  "bob_online = demo_state\<lparr>onlineUsers := [alice \<mapsto> ''s1'', bob \<mapsto> ''s5'']\<rparr>"

definition delivered_hi :: message where
  "delivered_hi = \<lparr>m_id = doc0, sender = alice, receiver = bob, content = [104, 105],
     messageType = Text, status = Delivered, createdAt = 900\<rparr>"

definition chat_state :: state where
  "chat_state = bob_online\<lparr>messages := [delivered_hi]\<rparr>"

definition save_fails :: env where
  "save_fails = demo_env\<lparr>fails := (\<lambda>c. c = MessageSave)\<rparr>"

text \<open>
  Alice's inbox: her own message to bob and two messages from bob that she has not read.
\<close>

definition unread1 :: message where
  "unread1 = \<lparr>m_id = doc1, sender = bob, receiver = alice, content = [111, 110, 101],
     messageType = Text, status = Sent, createdAt = 901\<rparr>"

definition unread2 :: message where
  "unread2 = \<lparr>m_id = doc2, sender = bob, receiver = alice, content = [116, 119, 111],
     messageType = Text, status = Delivered, createdAt = 902\<rparr>"

definition inbox_state :: state where
  "inbox_state = demo_state\<lparr>messages := [delivered_hi, unread1, unread2]\<rparr>"




text \<open>
  Two runs from a store without relationships. In \<open>crossing\<close> alice asks bob and bob asks
  alice, and both lookups return before either request is created. In \<open>declined\<close> alice
  asks bob, bob declines, bob then asks alice and alice accepts, each operation after the
  other.
\<close>

definition no_friends :: state where
  "no_friends = demo_state\<lparr>friendships := []\<rparr>"

definition crossing :: "action list" where
  "crossing =
     [Start (demo_env\<lparr>newId := doc1\<rparr>) (SendFriendRequest alice (Some bob)),
      Start (demo_env\<lparr>newId := doc2\<rparr>) (SendFriendRequest bob (Some alice)),
      Resume 0, Resume 1, Resume 0, Resume 1, Resume 0, Resume 1]"

definition declined :: "(env \<times> operation) list" where
  "declined =
     [(demo_env\<lparr>newId := doc1\<rparr>, SendFriendRequest alice (Some bob)),
      (demo_env, RejectFriendRequest bob doc1),
      (demo_env\<lparr>newId := doc2\<rparr>, SendFriendRequest bob (Some alice)),
      (demo_env, AcceptFriendRequest alice doc2)]"

section \<open>Presence registry and connection gateway\<close>

lemmas proc_defs = emit_def reading_def writing_def attempt_def

lemma ids:
  "alice \<noteq> bob" "bob \<noteq> alice" "alice \<noteq> carol" "carol \<noteq> alice" "bob \<noteq> carol" "carol \<noteq> bob"
  "BOB \<noteq> bob" "bob \<noteq> BOB" "BOB \<noteq> alice" "alice \<noteq> BOB"
  "alice \<noteq> []" "bob \<noteq> []" "BOB \<noteq> []" "carol \<noteq> []"
  "doc0 \<noteq> doc1" "doc1 \<noteq> doc0" "doc0 \<noteq> doc2" "doc2 \<noteq> doc0" "doc1 \<noteq> doc2" "doc2 \<noteq> doc1"
  by (simp_all add: alice_def bob_def BOB_def carol_def doc0_def doc1_def doc2_def)

lemma casts:
  "hexId alice = Some alice" "hexId bob = Some bob" "hexId BOB = Some bob"
  "hexId carol = Some carol" "hexId doc0 = Some doc0" "hexId doc1 = Some doc1"
  "hexId doc2 = Some doc2"
  by (simp_all add: hexId_def isHex_def lower_def alice_def bob_def BOB_def carol_def doc0_def
        doc1_def doc2_def)

lemmas demo = demo_env_def demo_state_def alice1_def alice2_def alice1_conn_def bob_conn_def
  anonymous_def forged_def ids casts

lemmas gateway_defs = connect_def authMiddleware_def handshake_token_def on_connection_def
  on_disconnect_def User_findByIdAndUpdate_def friendIdsOf_def emitToUser_def proc_defs

text \<open>
  C1, as stated, fails. Alice connects on socket \<open>s1\<close>, then on \<open>s2\<close>: the registry maps her
  to \<open>s2\<close>. The disconnect handler of the stale connection \<open>s1\<close> then runs
  \<open>onlineUsers.delete(userId)\<close> without looking at the mapped socket, and her current entry
  is gone.
\<close>

theorem stale_disconnect_removes_current_entry:
  "snd (complete (connect demo_env alice1) demo_state) = [ConnEnd (Established alice1_conn)]
   \<and> onlineUsers twice_connected alice = Some (s_id alice2)
   \<and> s_id alice2 \<noteq> c_sid alice1_conn
   \<and> onlineUsers (fst (complete (on_disconnect demo_env alice1_conn) twice_connected)) alice
       \<noteq> onlineUsers twice_connected alice"
  by (simp add: twice_connected_def demo gateway_defs Let_def)

text \<open>
  C1, amended: the disconnect of any connection of an identity, stale or current, removes
  the registry entry of that identity, whatever socket it maps to and whether or not the
  account update that follows succeeds; the entries of all other identities are unchanged.
\<close>

theorem on_disconnect_registry:
  "onlineUsers (fst (complete (on_disconnect e c) st)) = (onlineUsers st)(c_userId c := None)"
  by (simp add: on_disconnect_def proc_defs split_beta split: option.splits)

text \<open>
  C7: a connection attempt that carries no token (none at all, or an empty one), or a token
  that \<open>verifyAccessToken\<close> rejects, is refused with an authentication error; the state,
  and with it the registry and the accounts, is unchanged and nothing is emitted.
\<close>

theorem connect_refused:
  assumes "\<not> truthy (handshake_token (s_handshake sock))
           \<or> (\<exists>t. handshake_token (s_handshake sock) = Some t \<and> verifyAccessToken e t = None)"
  shows "complete (connect e sock) st
           = (st, [ConnEnd (Refused ''Authentication error: No token provided'')])
         \<or> complete (connect e sock) st
           = (st, [ConnEnd (Refused ''Authentication error: Invalid token'')])"
proof (cases "handshake_token (s_handshake sock)")
  case None
  then show ?thesis by (simp add: connect_def authMiddleware_def emit_def)
next
  case (Some t)
  show ?thesis
  proof (cases "t = []")
    case True
    with Some show ?thesis by (simp add: connect_def authMiddleware_def emit_def)
  next
    case False
    with Some assms have "verifyAccessToken e t = None" by simp
    with Some False show ?thesis by (simp add: connect_def authMiddleware_def emit_def)
  qed
qed

text \<open>
  The two refusals of C7, on the socket without a token and on the one with a bad token.
\<close>

theorem connect_refused_witness:
  "complete (connect demo_env anonymous) demo_state
     = (demo_state, [ConnEnd (Refused ''Authentication error: No token provided'')])
   \<and> complete (connect demo_env forged) demo_state
     = (demo_state, [ConnEnd (Refused ''Authentication error: Invalid token'')])"
proof -
  have a: "\<not> truthy (handshake_token (s_handshake anonymous))"
    by (simp add: anonymous_def handshake_token_def)
  have f: "\<exists>t. handshake_token (s_handshake forged) = Some t \<and> verifyAccessToken demo_env t = None"
    by (simp add: forged_def handshake_token_def demo_env_def)
  have na: "complete (connect demo_env anonymous) demo_state
              \<noteq> (demo_state, [ConnEnd (Refused ''Authentication error: Invalid token'')])"
    by (simp add: connect_def authMiddleware_def anonymous_def handshake_token_def emit_def)
  have nf: "complete (connect demo_env forged) demo_state
              \<noteq> (demo_state, [ConnEnd (Refused ''Authentication error: No token provided'')])"
    by (simp add: connect_def authMiddleware_def forged_def handshake_token_def demo_env_def
          emit_def)
  from connect_refused [of anonymous demo_env demo_state] a na
       connect_refused [of forged demo_env demo_state] f nf
  show ?thesis by blast
qed



section \<open>Event router\<close>

lemma updateOne_append_last:
  "\<forall>x\<in>set xs. \<not> P x \<Longrightarrow> P y \<Longrightarrow> updateOne P f (xs @ [y]) = xs @ [f y]"
  by (induction xs) auto

lemma find_updateOne:
  "find P xs = Some m \<Longrightarrow> P (f m) \<Longrightarrow> find P (updateOne P f xs) = Some (f m)"
  by (induction xs) (auto split: if_splits)

lemma not_in_keys: "v \<notin> k ` set xs \<Longrightarrow> \<forall>x\<in>set xs. k x \<noteq> v"
  by blast

lemma trim_hi: "trim [104, 105] = [104, 105]"
  by (simp add: trim_def isSpace_def)

lemma trim_blank: "trim [0x0020, 0x00A0] = []"
  by (simp add: trim_def isSpace_def)

lemma Message_create_blank:
  "trim txt = [] \<Longrightarrow> \<exists>err. Message_create e ms a b txt t = Inl err"
  by (simp add: Message_create_def)

lemma Message_create_ok:
  assumes "\<not> fails e MessageCreate" "trim (d_content d) \<noteq> []"
    "newId e \<notin> set (map m_id ms)"
  shows "Message_create e ms a b (d_content d)
             (case d_messageType d of None \<Rightarrow> Text | Some t \<Rightarrow> t)
           = Inr (ms @ [createdMessage e a b d], createdMessage e a b d)"
  using assms by (simp add: Message_create_def createdMessage_def Let_def)

lemma Message_save_created:
  assumes "newId e \<notin> set (map m_id ms)"
  shows "Message_save (ms @ [createdMessage e a b d]) ((createdMessage e a b d)\<lparr>status := s\<rparr>)
           = ms @ [(createdMessage e a b d)\<lparr>status := s\<rparr>]"
proof -
  from assms have "newId e \<notin> m_id ` set ms" by simp
  then have "\<forall>x\<in>set ms. m_id x \<noteq> newId e" by (rule not_in_keys)
  then have "\<forall>x\<in>set ms. \<not> m_id x = m_id ((createdMessage e a b d)\<lparr>status := s\<rparr>)"
    by (simp add: createdMessage_def)
  then show ?thesis
    unfolding Message_save_def by (subst updateOne_append_last) simp_all
qed

lemma send_message_blank:
  assumes "castId e (c_userId c) = Some a" "castId e (d_receiverId d) = Some b"
    and "findAccepted (friendships st) a b = Some f"
    and "trim (d_content d) = []"
  shows "complete (send_message e c d) st = (st, [Emit (c_sid c) (Error ''Failed to send message'')])"
  using assms by (simp add: send_message_def proc_defs Message_create_def Let_def)

lemma send_message_present:
  assumes "castId e (c_userId c) = Some a" "castId e (d_receiverId d) = Some b"
    and "findAccepted (friendships st) a b = Some f"
    and "trim (d_content d) \<noteq> []"
    and "\<not> fails e FriendshipFindOne" "\<not> fails e MessageCreate" "\<not> fails e MessagePopulate"
      "\<not> fails e MessageSave"
    and "newId e \<notin> set (map m_id (messages st))"
    and "onlineUsers st (d_receiverId d) = Some rs" "rs \<noteq> []"
  shows "complete (send_message e c d) st =
           (st\<lparr>messages := messages st @ [(createdMessage e a b d)\<lparr>status := Delivered\<rparr>]\<rparr>,
            [Emit rs (ReceiveMessage ((createdMessage e a b d)\<lparr>status := Delivered\<rparr>)),
             Emit (c_sid c) (MessageSent ((createdMessage e a b d)\<lparr>status := Delivered\<rparr>))])"
  using assms Message_create_ok [OF assms(6) assms(4) assms(9), of a b]
    Message_save_created [OF assms(9), of a b d Delivered]
  by (simp add: send_message_def proc_defs Let_def)

lemma send_message_absent:
  assumes "castId e (c_userId c) = Some a" "castId e (d_receiverId d) = Some b"
    and "findAccepted (friendships st) a b = Some f"
    and "trim (d_content d) \<noteq> []"
    and "\<not> fails e FriendshipFindOne" "\<not> fails e MessageCreate" "\<not> fails e MessagePopulate"
    and "newId e \<notin> set (map m_id (messages st))"
    and "\<not> truthy (onlineUsers st (d_receiverId d))"
  shows "complete (send_message e c d) st =
           (st\<lparr>messages := messages st @ [createdMessage e a b d]\<rparr>,
            [Emit (c_sid c) (MessageSent (createdMessage e a b d))])"
  using assms Message_create_ok [OF assms(6) assms(4) assms(8), of a b]
  by (cases "onlineUsers st (d_receiverId d)") (simp_all add: send_message_def proc_defs Let_def)

text \<open>
  C2: when no accepted relationship between the caller and the receiver is stored, in either
  direction, \<open>send_message\<close> emits exactly one event, an \<open>error\<close> to the caller's own socket,
  and returns the state as it was: no message is created and nothing goes to any other
  socket. (The relationship is looked up under the ids as the driver casts them. The error
  is the handler's refusal, or the one of its \<open>catch\<close> when the lookup itself throws, on a
  store failure or on an id that cannot be cast.)
\<close>

theorem send_message_not_friends:
  assumes "\<forall>f\<in>set (friendships st). \<forall>a b.
             castId e (c_userId c) = Some a \<and> castId e (d_receiverId d) = Some b
             \<longrightarrow> \<not> (between a b f \<and> f_status f = Accepted)"
  shows "complete (send_message e c d) st =
           (st, [Emit (c_sid c)
                   (Error (if fails e FriendshipFindOne \<or> castId e (c_userId c) = None
                              \<or> castId e (d_receiverId d) = None
                           then ''Failed to send message''
                           else ''Not friends with this user''))])"
proof (cases "castId e (c_userId c)")
  case None
  then show ?thesis by (simp add: send_message_def proc_defs Let_def)
next
  case a: (Some a)
  show ?thesis
  proof (cases "castId e (d_receiverId d)")
    case None
    with a show ?thesis by (simp add: send_message_def proc_defs Let_def)
  next
    case b: (Some b)
    from assms a b have "\<forall>f\<in>set (friendships st). \<not> (between a b f \<and> f_status f = Accepted)"
      by blast
    then have "findAccepted (friendships st) a b = None"
      unfolding findAccepted_def find_None_iff by blast
    with a b show ?thesis by (simp add: send_message_def proc_defs Let_def)
  qed
qed

text \<open>
  C2 on the scenario: alice writes to carol, who is no friend of hers.
\<close>

theorem send_message_not_friends_witness:
  "complete (send_message demo_env alice1_conn to_carol) demo_state
     = (demo_state, [Emit ''s1'' (Error ''Not friends with this user'')])"
proof -
  have "\<forall>f\<in>set (friendships demo_state). \<forall>a b.
          castId demo_env (c_userId alice1_conn) = Some a
          \<and> castId demo_env (d_receiverId to_carol) = Some b
          \<longrightarrow> \<not> (between a b f \<and> f_status f = Accepted)"
    by (simp add: demo to_carol_def between_def)
  from send_message_not_friends [OF this]
  show ?thesis by (simp add: demo to_carol_def)
qed

text \<open>
  C3, as stated, fails, in two ways. Alice and bob have an accepted relationship and bob is
  present on socket \<open>s5\<close>.
  \<^item> The event carries a content of a space and a no-break space. The schema trims it to
    the empty string and its \<open>required\<close> validator rejects the document: \<open>Message.create\<close>
    throws, the \<open>catch\<close> answers with an \<open>error\<close>, no message is created and no
    \<open>message_sent\<close> is pushed.
  \<^item> The event names bob by his id in upper case. The lookup and \<open>Message.create\<close> cast the
    string to bob's id, so the message is created for bob; the registry is asked for the
    string as sent, under which nobody is registered. The message stays \<open>sent\<close> and no
    \<open>receive_message\<close> is pushed, although bob is present.
\<close>

theorem send_message_claim_fails:
  "findAccepted (friendships bob_online) alice bob \<noteq> None
   \<and> castId demo_env (c_userId alice1_conn) = Some alice
   \<and> castId demo_env (d_receiverId blank) = Some bob
   \<and> complete (send_message demo_env alice1_conn blank) bob_online
       = (bob_online, [Emit (c_sid alice1_conn) (Error ''Failed to send message'')])
   \<and> castId demo_env (d_receiverId respelt) = Some bob
   \<and> onlineUsers bob_online bob = Some ''s5''
   \<and> complete (send_message demo_env alice1_conn respelt) bob_online
       = (bob_online\<lparr>messages := [createdMessage demo_env alice bob respelt]\<rparr>,
          [Emit (c_sid alice1_conn) (MessageSent (createdMessage demo_env alice bob respelt))])
   \<and> status (createdMessage demo_env alice bob respelt) = Sent"
  by (simp add: send_message_def proc_defs Message_create_def findAccepted_def between_def
        trim_hi trim_blank createdMessage_def bob_online_def blank_def respelt_def demo Let_def)

text \<open>
  C3, amended: for a caller and a receiver whose ids, as the driver casts them, have an
  accepted relationship, a \<open>send_message\<close> event processed without interruption while the
  store calls succeed (the generated \<open>_id\<close> being new) does the following.
  \<^item> When the content is empty after trimming (the trimming of the schema, which strips
    every white space and line terminator of the language), no message is created, the
    state is as before, and the only event is an \<open>error\<close> to the caller's socket.
  \<^item> Otherwise exactly one message is created, in status \<open>sent\<close>, with the trimmed content.
    When the registry has an entry under the \<open>receiverId\<close> string of the event, the stored
    message becomes \<open>delivered\<close>, \<open>receive_message\<close> goes to the socket registered there and
    \<open>message_sent\<close> to the caller's socket; when it has none, the message stays \<open>sent\<close> and
    only \<open>message_sent\<close> is pushed, to the caller's socket.
\<close>

theorem send_message_friends:
  assumes cast: "castId e (c_userId c) = Some a" "castId e (d_receiverId d) = Some b"
    and fr: "findAccepted (friendships st) a b = Some f"
    and ok: "\<not> fails e FriendshipFindOne" "\<not> fails e MessageCreate" "\<not> fails e MessagePopulate"
      "\<not> fails e MessageSave"
    and fresh: "newId e \<notin> set (map m_id (messages st))"
  shows "(trim (d_content d) = [] \<longrightarrow>
            complete (send_message e c d) st
              = (st, [Emit (c_sid c) (Error ''Failed to send message'')]))
    \<and> (trim (d_content d) \<noteq> [] \<longrightarrow>
          Message_create e (messages st) a b (d_content d)
              (case d_messageType d of None \<Rightarrow> Text | Some t \<Rightarrow> t)
            = Inr (messages st @ [createdMessage e a b d], createdMessage e a b d)
        \<and> status (createdMessage e a b d) = Sent
        \<and> (\<forall>rs. onlineUsers st (d_receiverId d) = Some rs \<and> rs \<noteq> [] \<longrightarrow>
              complete (send_message e c d) st =
                (st\<lparr>messages := messages st @ [(createdMessage e a b d)\<lparr>status := Delivered\<rparr>]\<rparr>,
                 [Emit rs (ReceiveMessage ((createdMessage e a b d)\<lparr>status := Delivered\<rparr>)),
                  Emit (c_sid c) (MessageSent ((createdMessage e a b d)\<lparr>status := Delivered\<rparr>))]))
        \<and> (\<not> truthy (onlineUsers st (d_receiverId d)) \<longrightarrow>
              complete (send_message e c d) st =
                (st\<lparr>messages := messages st @ [createdMessage e a b d]\<rparr>,
                 [Emit (c_sid c) (MessageSent (createdMessage e a b d))])))"
proof -
  have 1: "trim (d_content d) = [] \<longrightarrow>
            complete (send_message e c d) st
              = (st, [Emit (c_sid c) (Error ''Failed to send message'')])"
    using send_message_blank [OF cast fr] by blast
  have 2: "status (createdMessage e a b d) = Sent" by (simp add: createdMessage_def)
  have 3: "trim (d_content d) \<noteq> [] \<longrightarrow>
          Message_create e (messages st) a b (d_content d)
              (case d_messageType d of None \<Rightarrow> Text | Some t \<Rightarrow> t)
            = Inr (messages st @ [createdMessage e a b d], createdMessage e a b d)"
    using Message_create_ok [OF ok(2) _ fresh] by blast
  have 4: "trim (d_content d) \<noteq> [] \<longrightarrow>
        (\<forall>rs. onlineUsers st (d_receiverId d) = Some rs \<and> rs \<noteq> [] \<longrightarrow>
              complete (send_message e c d) st =
                (st\<lparr>messages := messages st @ [(createdMessage e a b d)\<lparr>status := Delivered\<rparr>]\<rparr>,
                 [Emit rs (ReceiveMessage ((createdMessage e a b d)\<lparr>status := Delivered\<rparr>)),
                  Emit (c_sid c) (MessageSent ((createdMessage e a b d)\<lparr>status := Delivered\<rparr>))]))"
    using send_message_present [OF cast fr _ ok fresh] by blast
  have 5: "trim (d_content d) \<noteq> [] \<longrightarrow>
        (\<not> truthy (onlineUsers st (d_receiverId d)) \<longrightarrow>
              complete (send_message e c d) st =
                (st\<lparr>messages := messages st @ [createdMessage e a b d]\<rparr>,
                 [Emit (c_sid c) (MessageSent (createdMessage e a b d))]))"
    using send_message_absent [OF cast fr _ ok(1,2,3) fresh] by blast
  from 1 2 3 4 5 show ?thesis by blast
qed

text \<open>
  C3, amended, on the scenario: alice greets bob, once with bob present and once not, and
  once with a blank content.
\<close>

theorem send_message_friends_witness:
  "complete (send_message demo_env alice1_conn hello) bob_online
     = (bob_online\<lparr>messages := [(createdMessage demo_env alice bob hello)\<lparr>status := Delivered\<rparr>]\<rparr>,
        [Emit ''s5'' (ReceiveMessage ((createdMessage demo_env alice bob hello)\<lparr>status := Delivered\<rparr>)),
         Emit ''s1'' (MessageSent ((createdMessage demo_env alice bob hello)\<lparr>status := Delivered\<rparr>))])
   \<and> complete (send_message demo_env alice1_conn hello) demo_state
     = (demo_state\<lparr>messages := [createdMessage demo_env alice bob hello]\<rparr>,
        [Emit ''s1'' (MessageSent (createdMessage demo_env alice bob hello))])
   \<and> complete (send_message demo_env alice1_conn blank) bob_online
     = (bob_online, [Emit ''s1'' (Error ''Failed to send message'')])
   \<and> content (createdMessage demo_env alice bob hello) = [104, 105]"
proof -
  have ca: "castId demo_env (c_userId alice1_conn) = Some alice"
    and cb: "castId demo_env (d_receiverId hello) = Some bob"
    and cb': "castId demo_env (d_receiverId blank) = Some bob"
    by (simp_all add: demo hello_def blank_def)
  have fr1: "findAccepted (friendships bob_online) alice bob
               = Some \<lparr>f_id = doc0, requester = alice, recipient = bob, f_status = Accepted\<rparr>"
    and fr2: "findAccepted (friendships demo_state) alice bob
               = Some \<lparr>f_id = doc0, requester = alice, recipient = bob, f_status = Accepted\<rparr>"
    by (simp_all add: bob_online_def demo_state_def findAccepted_def between_def)
  have nb: "trim (d_content hello) \<noteq> []" by (simp add: hello_def trim_hi)
  have bl: "trim (d_content blank) = []" by (simp add: blank_def trim_blank)
  have ok: "\<not> fails demo_env FriendshipFindOne" "\<not> fails demo_env MessageCreate"
    "\<not> fails demo_env MessagePopulate" "\<not> fails demo_env MessageSave"
    by (simp_all add: demo_env_def)
  have f1: "newId demo_env \<notin> set (map m_id (messages bob_online))"
    and f2: "newId demo_env \<notin> set (map m_id (messages demo_state))"
    by (simp_all add: bob_online_def demo_state_def)
  have on: "onlineUsers bob_online (d_receiverId hello) = Some ''s5'' \<and> ''s5'' \<noteq> []"
    by (simp add: bob_online_def hello_def ids)
  have off: "\<not> truthy (onlineUsers demo_state (d_receiverId hello))"
    by (simp add: demo_state_def)
  from send_message_friends [OF ca cb fr1 ok f1] nb on
       send_message_friends [OF ca cb fr2 ok f2] off
       send_message_friends [OF ca cb' fr1 ok f1] bl
  show ?thesis
    by (simp add: bob_online_def demo_state_def alice1_conn_def createdMessage_def hello_def trim_hi)
qed

lemma send_message_failure_surfaced:
  assumes "\<forall>m. Emit (c_sid c) (MessageSent m) \<notin> set (snd (complete (send_message e c d) st))"
  shows "snd (complete (send_message e c d) st) = [Emit (c_sid c) (Error ''Failed to send message'')]
         \<or> snd (complete (send_message e c d) st)
             = [Emit (c_sid c) (Error ''Not friends with this user'')]"
  using assms
  by (auto simp: send_message_def proc_defs Let_def split_beta
        split: option.splits sum.splits if_splits prod.splits)

lemma message_read_store_failure:
  assumes "fails e MessageFindById \<or> fails e MessageSave"
  shows "complete (message_read e c messageId) st = (st, [])"
  using assms
  by (auto simp: message_read_def proc_defs Let_def split: option.splits)

text \<open>
  C6 fails on \<open>message_read\<close>. Bob marks alice's message read while the store rejects
  \<open>message.save()\<close>: the \<open>catch\<close> of the handler only logs, so no \<open>error\<close> event reaches
  bob's socket (nothing is emitted at all), unlike the \<open>catch\<close> of \<open>send_message\<close>.
\<close>

theorem message_read_failure_is_silent:
  "fails save_fails MessageSave
   \<and> complete (message_read save_fails bob_conn doc0) chat_state = (chat_state, [])"
  by (simp add: message_read_def proc_defs save_fails_def chat_state_def bob_online_def
        delivered_hi_def demo Let_def)

lemma message_read_result:
  assumes "\<not> fails e MessageFindById" "\<not> fails e MessageSave"
    and "castId e messageId = Some mid"
    and "find (\<lambda>x. m_id x = mid) (messages st) = Some m"
    and "receiver m = c_userId c"
  shows "complete (message_read e c messageId) st =
          (st\<lparr>messages := updateOne (\<lambda>x. m_id x = mid) (\<lambda>x. x\<lparr>status := Read\<rparr>) (messages st)\<rparr>,
           emitToUser (onlineUsers st) (sender m) (MessageRead messageId))"
proof -
  from assms(4) have "m_id m = mid" by (auto simp: find_Some_iff)
  with assms show ?thesis
    by (simp add: message_read_def proc_defs Message_save_def Let_def)
qed

text \<open>
  C9: for a \<open>message_read\<close> event whose \<open>messageId\<close> the driver casts to \<open>mid\<close>, when the
  stored message with that id has the caller as receiver (and the store calls succeed), the
  stored message is the same document with status \<open>read\<close>, nothing else in the state
  changes, and a \<open>message_read\<close> event carrying the \<open>messageId\<close> of the event goes to the
  registered socket of the message's sender exactly when the sender is present; otherwise
  nothing is emitted.
\<close>

theorem message_read_marks_read:
  assumes ok: "\<not> fails e MessageFindById" "\<not> fails e MessageSave"
    and cast: "castId e messageId = Some mid"
    and found: "find (\<lambda>x. m_id x = mid) (messages st) = Some m"
    and rcv: "receiver m = c_userId c"
  shows "find (\<lambda>x. m_id x = mid) (messages (fst (complete (message_read e c messageId) st)))
           = Some (m\<lparr>status := Read\<rparr>)
    \<and> fst (complete (message_read e c messageId) st)
        = st\<lparr>messages := updateOne (\<lambda>x. m_id x = mid) (\<lambda>x. x\<lparr>status := Read\<rparr>) (messages st)\<rparr>
    \<and> (\<forall>s. onlineUsers st (sender m) = Some s \<and> s \<noteq> [] \<longrightarrow>
          snd (complete (message_read e c messageId) st) = [Emit s (MessageRead messageId)])
    \<and> (\<not> truthy (onlineUsers st (sender m)) \<longrightarrow>
          snd (complete (message_read e c messageId) st) = [])"
proof -
  from found have id: "m_id m = mid" by (auto simp: find_Some_iff)
  note res = message_read_result [OF ok cast found rcv]
  have 1: "find (\<lambda>x. m_id x = mid) (messages (fst (complete (message_read e c messageId) st)))
           = Some (m\<lparr>status := Read\<rparr>)"
    using res found id by (simp add: find_updateOne)
  have 3: "\<forall>s. onlineUsers st (sender m) = Some s \<and> s \<noteq> [] \<longrightarrow>
          snd (complete (message_read e c messageId) st) = [Emit s (MessageRead messageId)]"
    using res by (simp add: emitToUser_def)
  have 4: "\<not> truthy (onlineUsers st (sender m)) \<longrightarrow>
          snd (complete (message_read e c messageId) st) = []"
    using res by (cases "onlineUsers st (sender m)") (simp_all add: emitToUser_def)
  from res 1 3 4 show ?thesis by simp
qed

text \<open>
  C9 on the scenario: bob reads alice's message while alice is on socket \<open>s1\<close>.
\<close>

theorem message_read_marks_read_witness:
  "complete (message_read demo_env bob_conn doc0) chat_state
     = (chat_state\<lparr>messages := [delivered_hi\<lparr>status := Read\<rparr>]\<rparr>, [Emit ''s1'' (MessageRead doc0)])"
proof -
  have ok: "\<not> fails demo_env MessageFindById" "\<not> fails demo_env MessageSave"
    by (simp_all add: demo_env_def)
  have cast: "castId demo_env doc0 = Some doc0" by (simp add: demo)
  have found: "find (\<lambda>x. m_id x = doc0) (messages chat_state) = Some delivered_hi"
    by (simp add: chat_state_def delivered_hi_def)
  have rcv: "receiver delivered_hi = c_userId bob_conn"
    by (simp add: delivered_hi_def bob_conn_def)
  have on: "onlineUsers chat_state (sender delivered_hi) = Some ''s1'' \<and> ''s1'' \<noteq> []"
    by (simp add: chat_state_def bob_online_def delivered_hi_def ids)
  from message_read_marks_read [OF ok cast found rcv] on
  have "fst (complete (message_read demo_env bob_conn doc0) chat_state)
          = chat_state\<lparr>messages := updateOne (\<lambda>x. m_id x = doc0) (\<lambda>x. x\<lparr>status := Read\<rparr>)
                                      (messages chat_state)\<rparr>"
    and "snd (complete (message_read demo_env bob_conn doc0) chat_state)
           = [Emit ''s1'' (MessageRead doc0)]"
    by blast+
  then show ?thesis
    by (simp add: prod_eq_iff chat_state_def delivered_hi_def)
qed

section \<open>Routing to the most recent connection\<close>






section \<open>History fetch\<close>

lemma getMessages_result:
  assumes "isValid e friendId" "\<not> fails e FriendshipFindOne" "\<not> fails e MessageFind"
      "\<not> fails e MessageUpdateMany"
    and "castId e userId = Some U" "castId e friendId = Some F"
    and "findAccepted (friendships st) U F = Some f"
  shows "complete (getMessages e userId friendId limit skip) st =
           (st\<lparr>messages := markRead F U (messages st)\<rparr>,
            [Respond
               (Success ''Messages retrieved successfully''
                  (MessagesData
                     (rev (page (case limit of None \<Rightarrow> 50 | Some n \<Rightarrow> n)
                             (case skip of None \<Rightarrow> 0 | Some n \<Rightarrow> n)
                             (filter (conversation U F) (messages st))))
                     (length (filter (unreadFrom F U) (messages st))))
                  200)])"
  using assms by (simp add: getMessages_def proc_defs Let_def)

text \<open>
  C10: a history fetch by user \<open>U\<close> for friend \<open>F\<close> (a valid id, an accepted relationship,
  the store calls succeeding) leaves the collection with the same documents at the same
  places, every message from \<open>F\<close> to \<open>U\<close> now in status \<open>read\<close> and every other message
  untouched, whatever \<open>limit\<close> and \<open>skip\<close> are: the update is not scoped to the page returned.
\<close>

theorem getMessages_marks_all_read:
  assumes ok: "isValid e friendId" "\<not> fails e FriendshipFindOne" "\<not> fails e MessageFind"
      "\<not> fails e MessageUpdateMany"
    and cast: "castId e userId = Some U" "castId e friendId = Some F"
    and fr: "findAccepted (friendships st) U F = Some f"
  shows "length (messages (fst (complete (getMessages e userId friendId limit skip) st)))
           = length (messages st)
    \<and> (\<forall>i<length (messages st).
          messages (fst (complete (getMessages e userId friendId limit skip) st)) ! i =
            (if sender (messages st ! i) = F \<and> receiver (messages st ! i) = U
             then (messages st ! i)\<lparr>status := Read\<rparr> else messages st ! i))"
proof -
  have "messages (fst (complete (getMessages e userId friendId limit skip) st))
          = markRead F U (messages st)"
    using getMessages_result [OF ok cast fr] by simp
  moreover have "\<And>m::message. status m = Read \<Longrightarrow> m\<lparr>status := Read\<rparr> = m"
    by simp
  ultimately show ?thesis
    by (auto simp: markRead_def unreadFrom_def)
qed

text \<open>
  C10 on the scenario: alice fetches with \<open>limit = 1\<close>. The page holds only bob's newest
  message, the count of modified documents is 2, and both of bob's messages are \<open>read\<close>.
\<close>

theorem getMessages_marks_all_read_witness:
  "snd (complete (getMessages demo_env alice bob (Some 1) None) inbox_state)
     = [Respond (Success ''Messages retrieved successfully'' (MessagesData [unread2] 2) 200)]
   \<and> messages (fst (complete (getMessages demo_env alice bob (Some 1) None) inbox_state)) ! 1
       = unread1\<lparr>status := Read\<rparr>
   \<and> messages (fst (complete (getMessages demo_env alice bob (Some 1) None) inbox_state)) ! 2
       = unread2\<lparr>status := Read\<rparr>"
proof -
  have ok: "isValid demo_env bob" "\<not> fails demo_env FriendshipFindOne"
    "\<not> fails demo_env MessageFind" "\<not> fails demo_env MessageUpdateMany"
    by (simp_all add: demo_env_def casts)
  have cast: "castId demo_env alice = Some alice" "castId demo_env bob = Some bob"
    by (simp_all add: demo_env_def casts)
  have fr: "findAccepted (friendships inbox_state) alice bob
              = Some \<lparr>f_id = doc0, requester = alice, recipient = bob, f_status = Accepted\<rparr>"
    by (simp add: inbox_state_def demo_state_def findAccepted_def between_def)
  have resp: "snd (complete (getMessages demo_env alice bob (Some 1) None) inbox_state)
     = [Respond (Success ''Messages retrieved successfully'' (MessagesData [unread2] 2) 200)]"
    using getMessages_result [OF ok cast fr, of "Some 1" None]
    by (simp add: page_def conversation_def unreadFrom_def inbox_state_def delivered_hi_def
          unread1_def unread2_def ids)
  let ?ms = "messages (fst (complete (getMessages demo_env alice bob (Some 1) None) inbox_state))"
  from getMessages_marks_all_read [OF ok cast fr, of "Some 1" None]
  have n: "\<forall>i<length (messages inbox_state). ?ms ! i =
            (if sender (messages inbox_state ! i) = bob \<and> receiver (messages inbox_state ! i) = alice
             then (messages inbox_state ! i)\<lparr>status := Read\<rparr> else messages inbox_state ! i)"
    by blast
  have ms: "messages inbox_state = [delivered_hi, unread1, unread2]"
    by (simp add: inbox_state_def)
  have "?ms ! 1 = unread1\<lparr>status := Read\<rparr>"
    using n [rule_format, of 1] by (simp add: ms unread1_def)
  moreover have "?ms ! 2 = unread2\<lparr>status := Read\<rparr>"
    using n [rule_format, of 2] by (simp add: ms unread2_def)
  ultimately show ?thesis using resp by simp
qed

section \<open>Runs and what every phase keeps\<close>

lemma always_emit: "(\<And>s. R s s) \<Longrightarrow> always R (emit outs)"
  by (simp add: emit_def)

lemma always_reading: "(\<And>s. R s s) \<Longrightarrow> (\<And>st. always R (k st)) \<Longrightarrow> always R (reading k)"
  by (simp add: reading_def)

lemma always_writing:
  "(\<And>st. R st (w st)) \<Longrightarrow> (\<And>st. always R (k st)) \<Longrightarrow> always R (writing w k)"
  by (simp add: writing_def)

lemma always_attempt:
  assumes "\<And>s. R s s" and "\<And>st st' x. f st = Inr (st', x) \<Longrightarrow> R st st'"
    and "always R failed" and "\<And>x. always R (k x)"
  shows "always R (attempt f failed k)"
  using assms by (auto simp: attempt_def split: sum.splits)

lemma complete_always:
  assumes r: "\<And>s. R s s" and t: "\<And>a b c. R a b \<Longrightarrow> R b c \<Longrightarrow> R a c"
  shows "always R p \<Longrightarrow> R st (fst (complete p st))"
proof (induction p arbitrary: st)
  case Done
  show ?case by (simp add: r)
next
  case (Phase a k)
  from Phase.prems have 1: "R st (fst (a st))" and 2: "always R (k st)" by simp_all
  have "k st \<in> range k" by simp
  from Phase.IH [OF this 2, of "fst (a st)"] 1
  show ?case by (auto simp: split_beta intro: t)
qed

lemma perform_always:
  assumes r: "\<And>s. R s s" and t: "\<And>a b c. R a b \<Longrightarrow> R b c \<Longrightarrow> R a c"
    and h: "\<And>e op. always R (handler e op)"
    and pool: "\<forall>p\<in>set pool. always R p"
    and res: "perform x (st, tr, pool) = (st', tr', pool')"
  shows "R st st' \<and> (\<forall>p\<in>set pool'. always R p)"
proof (cases x)
  case (Start e op)
  with res have "st' = st" "pool' = pool @ [handler e op]" by simp_all
  with pool h r show ?thesis by auto
next
  case (Resume i)
  show ?thesis
  proof (cases "i < length pool")
    case False
    with Resume res have "st' = st" "pool' = pool" by simp_all
    with pool r show ?thesis by simp
  next
    case True
    show ?thesis
    proof (cases "pool ! i")
      case Done
      with True Resume res have "st' = st" "pool' = pool" by simp_all
      with pool r show ?thesis by simp
    next
      case (Phase a k)
      with True Resume res have st': "st' = fst (a st)" and pool': "pool' = pool[i := k st]"
        by simp_all
      from True pool have "always R (pool ! i)" by simp
      with Phase have 1: "R st (fst (a st))" and 2: "always R (k st)" by simp_all
      have "\<forall>p\<in>set (pool[i := k st]). always R p"
      proof
        fix p assume "p \<in> set (pool[i := k st])"
        then have "p \<in> insert (k st) (set pool)"
          using set_update_subset_insert by fastforce
        with 2 pool show "always R p" by auto
      qed
      with 1 st' pool' show ?thesis by simp
    qed
  qed
qed

lemma interleave_always:
  assumes r: "\<And>s. R s s" and t: "\<And>a b c. R a b \<Longrightarrow> R b c \<Longrightarrow> R a c"
    and h: "\<And>e op. always R (handler e op)"
  shows "\<forall>p\<in>set pool. always R p \<Longrightarrow> R st (fst (interleave acts (st, tr, pool)))"
proof (induction acts arbitrary: st tr pool)
  case Nil
  show ?case by (simp add: r)
next
  case (Cons x acts)
  obtain st' tr' pool' where p: "perform x (st, tr, pool) = (st', tr', pool')"
    by (cases "perform x (st, tr, pool)") auto
  from perform_always [of R, OF r t h Cons.prems p]
  have 1: "R st st'" and 2: "\<forall>p\<in>set pool'. always R p" by auto
  from Cons.IH [OF 2] have "R st' (fst (interleave acts (st', tr', pool')))" .
  with 1 p show ?case by (auto intro: t)
qed

section \<open>Delivery status\<close>





























lemmas always_intros = always_emit always_reading always_writing always_attempt








lemma always_mono: "(\<And>a b. R a b \<Longrightarrow> S a b) \<Longrightarrow> always R p \<Longrightarrow> always S p"
  by (induction p) auto




lemma Friendship_create_state:
  assumes "(case Friendship_create e (friendships st) a b of
              Inl err \<Rightarrow> Inl err
            | Inr (fs, f) \<Rightarrow> Inr (st\<lparr>friendships := fs\<rparr>, f)) = Inr (st', x)"
  shows "\<exists>fs. Friendship_create e (friendships st) a b = Inr (fs, x) \<and> st' = st\<lparr>friendships := fs\<rparr>"
  using assms by (cases "Friendship_create e (friendships st) a b") auto
















section \<open>Relationship records\<close>

text \<open>The handlers that leave the relationships alone.\<close>

lemma Message_create_state:
  assumes "(case Message_create e (messages st) a b k t of
              Inl err \<Rightarrow> Inl err
            | Inr (ms, message) \<Rightarrow> Inr (st\<lparr>messages := ms\<rparr>, message)) = Inr (st', x)"
  shows "\<exists>ms. st' = st\<lparr>messages := ms\<rparr>"
  using assms by (cases "Message_create e (messages st) a b k t") auto

lemma connect_friendships: "always (\<lambda>st st'. friendships st' = friendships st) (connect e sock)"
  unfolding connect_def on_connection_def Let_def
  by (auto intro!: always_intros split: option.splits sum.splits)

lemma on_disconnect_friendships:
  "always (\<lambda>st st'. friendships st' = friendships st) (on_disconnect e c)"
  unfolding on_disconnect_def
  by (auto intro!: always_intros split: option.splits)

lemma typing_friendships: "always (\<lambda>st st'. friendships st' = friendships st) (typing c r)"
  and stop_typing_friendships:
    "always (\<lambda>st st'. friendships st' = friendships st) (stop_typing c r)"
  by (simp_all add: typing_def stop_typing_def)

lemma send_message_friendships:
  "always (\<lambda>st st'. friendships st' = friendships st) (send_message e c d)"
  unfolding send_message_def Let_def
  by (auto intro!: always_intros split: option.splits dest!: Message_create_state)

lemma message_read_friendships:
  "always (\<lambda>st st'. friendships st' = friendships st) (message_read e c m)"
  unfolding message_read_def Let_def
  by (auto intro!: always_intros split: option.splits)

lemma getMessages_friendships:
  "always (\<lambda>st st'. friendships st' = friendships st) (getMessages e u f l s)"
  unfolding getMessages_def Let_def
  by (auto intro!: always_intros split: option.splits)

lemma sendMessage_friendships:
  "always (\<lambda>st st'. friendships st' = friendships st) (sendMessage e u r c t)"
  unfolding sendMessage_def Let_def
  by (auto intro!: always_intros split: option.splits dest!: Message_create_state)

lemmas friendships_untouched = connect_friendships on_disconnect_friendships typing_friendships
  stop_typing_friendships send_message_friendships message_read_friendships
  getMessages_friendships sendMessage_friendships

text \<open>What the store calls on the relationships keep.\<close>

lemma map_updateOne: "(\<And>x. k (h x) = k x) \<Longrightarrow> map k (updateOne P h xs) = map k xs"
  by (induction xs) simp_all

lemma set_deleteOne: "set (deleteOne P xs) \<subseteq> set xs"
  by (induction xs) auto

lemma distinct_deleteOne: "distinct (map k xs) \<Longrightarrow> distinct (map k (deleteOne P xs))"
proof (induction xs)
  case Nil
  show ?case by simp
next
  case (Cons x xs)
  from set_deleteOne [of P xs] have "k ` set (deleteOne P xs) \<subseteq> k ` set xs" by blast
  with Cons show ?case by auto
qed

lemma list_all_deleteOne: "list_all Q xs \<Longrightarrow> list_all Q (deleteOne P xs)"
  using set_deleteOne [of P xs] by (auto simp: list_all_iff)

lemma list_all_updateOne:
  "list_all Q xs \<Longrightarrow> (\<And>x. Q x \<Longrightarrow> Q (h x)) \<Longrightarrow> list_all Q (updateOne P h xs)"
  by (induction xs) simp_all

lemma orderedInv_deleteOne: "orderedInv fs \<Longrightarrow> orderedInv (deleteOne P fs)"
  by (simp add: orderedInv_def distinct_deleteOne)

lemma pairInv_deleteOne: "pairInv fs \<Longrightarrow> pairInv (deleteOne P fs)"
  by (simp add: pairInv_def distinct_deleteOne list_all_deleteOne)

lemma orderedInv_save: "orderedInv fs \<Longrightarrow> orderedInv (Friendship_save fs f)"
  by (simp add: orderedInv_def Friendship_save_def map_updateOne pairOf_def)

lemma pairInv_save:
  "pairInv fs \<Longrightarrow> f_status f = Accepted \<Longrightarrow> pairInv (Friendship_save fs f)"
  by (simp add: pairInv_def Friendship_save_def map_updateOne upair_def list_all_updateOne
        live_def)

lemma Friendship_create_Inr:
  assumes "Friendship_create e fs a b = Inr (fs', f)"
  shows "fs' = fs @ [f]" and "f_id f = newId e" and "pairOf f = (a, b)"
    and "f_status f = Pending"
    and "newId e \<notin> f_id ` set fs" and "(a, b) \<notin> pairOf ` set fs"
proof -
  have 1: "\<not> fails e FriendshipCreate"
    using assms by (cases "fails e FriendshipCreate") (simp_all add: Friendship_create_def)
  have 2: "newId e \<notin> set (map f_id fs)"
    using assms 1 by (cases "newId e \<in> set (map f_id fs)") (simp_all add: Friendship_create_def)
  have 3: "(a, b) \<notin> set (map (\<lambda>f. (requester f, recipient f)) fs)"
    using assms 1 2
    by (cases "(a, b) \<in> set (map (\<lambda>f. (requester f, recipient f)) fs)")
       (simp_all add: Friendship_create_def)
  from assms 1 2 3
  show "fs' = fs @ [f]" "f_id f = newId e" "pairOf f = (a, b)" "f_status f = Pending"
    by (auto simp: Friendship_create_def Let_def pairOf_def)
  from 2 show "newId e \<notin> f_id ` set fs" by simp
  have "pairOf = (\<lambda>f. (requester f, recipient f))" by (simp add: pairOf_def fun_eq_iff)
  with 3 show "(a, b) \<notin> pairOf ` set fs" by simp
qed

lemma orderedInv_create:
  assumes "Friendship_create e fs a b = Inr (fs', f)" and "orderedInv fs"
  shows "orderedInv fs'"
  using Friendship_create_Inr [OF assms(1)] assms(2) by (simp add: orderedInv_def)

lemma between_upair: "between a b f \<longleftrightarrow> upair f = {a, b}"
  by (auto simp: between_def upair_def doubleton_eq_iff)

lemma pairInv_create:
  assumes cr: "Friendship_create e fs a b = Inr (fs', f)" and inv: "pairInv fs"
    and none: "\<forall>x. find (between a b) fs = Some x \<longrightarrow> \<not> live x"
  shows "pairInv fs'"
proof -
  note c = Friendship_create_Inr [OF cr]
  from inv have all: "\<forall>x\<in>set fs. live x" by (simp add: pairInv_def list_all_iff)
  have "find (between a b) fs = None"
  proof (cases "find (between a b) fs")
    case (Some x)
    then have "x \<in> set fs" by (auto simp: find_Some_iff)
    with all none Some show ?thesis by blast
  qed simp
  then have "\<forall>x\<in>set fs. \<not> between a b x" by (simp add: find_None_iff)
  then have "\<forall>x\<in>set fs. upair x \<noteq> {a, b}" by (simp add: between_upair)
  then have new: "{a, b} \<notin> upair ` set fs" by blast
  from c(3) have "upair f = {a, b}" by (simp add: pairOf_def upair_def)
  moreover from c(4) have "live f" by (simp add: live_def)
  ultimately show ?thesis using c(1,2,5) new inv by (simp add: pairInv_def)
qed

lemma count_key_le_1: "distinct (map k xs) \<Longrightarrow> length (filter (\<lambda>x. k x = v) xs) \<le> 1"
proof (induction xs)
  case Nil
  show ?case by simp
next
  case (Cons x xs)
  show ?case
  proof (cases "k x = v")
    case True
    from Cons.prems have "k x \<notin> k ` set xs" by simp
    then have "\<forall>y\<in>set xs. k y \<noteq> k x" by (rule not_in_keys)
    with True have "\<forall>y\<in>set xs. k y \<noteq> v" by simp
    then have "filter (\<lambda>x. k x = v) xs = []" by (simp add: filter_empty_conv)
    with True show ?thesis by simp
  next
    case False
    with Cons show ?thesis by simp
  qed
qed

lemma orderedInv_count: "orderedInv fs \<Longrightarrow> countFromTo fs a b \<le> 1"
proof -
  assume "orderedInv fs"
  then have "distinct (map pairOf fs)" by (simp add: orderedInv_def)
  from count_key_le_1 [OF this, of "(a, b)"]
  have "length (filter (\<lambda>x. pairOf x = (a, b)) fs) \<le> 1" .
  moreover have "(\<lambda>f. requester f = a \<and> recipient f = b) = (\<lambda>x. pairOf x = (a, b))"
    by (simp add: pairOf_def fun_eq_iff)
  ultimately show ?thesis unfolding countFromTo_def by simp
qed

lemma pairInv_count: "pairInv fs \<Longrightarrow> countBetween fs a b \<le> 1"
proof -
  assume "pairInv fs"
  then have "distinct (map upair fs)" by (simp add: pairInv_def)
  from count_key_le_1 [OF this, of "{a, b}"]
  have "length (filter (\<lambda>x. upair x = {a, b}) fs) \<le> 1" .
  moreover have "between a b = (\<lambda>x. upair x = {a, b})"
    by (simp add: between_upair fun_eq_iff)
  ultimately show ?thesis unfolding countBetween_def by simp
qed

text \<open>Every phase of every handler keeps \<open>orderedInv\<close>.\<close>

lemma keepsOrdered_refl: "keepsOrdered s s"
  and keepsPairs_refl: "keepsPairs s s"
  by (simp_all add: keepsOrdered_def keepsPairs_def)

lemma keepsOrdered_trans: "keepsOrdered a b \<Longrightarrow> keepsOrdered b c \<Longrightarrow> keepsOrdered a c"
  and keepsPairs_trans: "keepsPairs a b \<Longrightarrow> keepsPairs b c \<Longrightarrow> keepsPairs a c"
  by (simp_all add: keepsOrdered_def keepsPairs_def)

lemma keepsOrdered_same: "friendships st' = friendships st \<Longrightarrow> keepsOrdered st st'"
  and keepsPairs_same: "friendships st' = friendships st \<Longrightarrow> keepsPairs st st'"
  by (simp_all add: keepsOrdered_def keepsPairs_def)

lemma creating_keepsOrdered:
  assumes "(case Friendship_create e (friendships st) a b of
              Inl err \<Rightarrow> Inl err
            | Inr (fs, f) \<Rightarrow> Inr (st\<lparr>friendships := fs\<rparr>, f)) = Inr (st', x)"
  shows "keepsOrdered st st'"
proof -
  from Friendship_create_state [OF assms] obtain fs
    where "Friendship_create e (friendships st) a b = Inr (fs, x)" "st' = st\<lparr>friendships := fs\<rparr>"
    by blast
  then show ?thesis by (auto simp: keepsOrdered_def dest: orderedInv_create)
qed

lemma saving_keepsOrdered:
  "keepsOrdered st (st\<lparr>friendships := Friendship_save (friendships st) f\<rparr>)"
  by (simp add: keepsOrdered_def orderedInv_save)

lemma saving_keepsPairs:
  "f_status f = Accepted \<Longrightarrow> keepsPairs st (st\<lparr>friendships := Friendship_save (friendships st) f\<rparr>)"
  by (simp add: keepsPairs_def pairInv_save)

lemma deleting_keepsOrdered:
  "keepsOrdered st (st\<lparr>friendships := deleteOne P (friendships st)\<rparr>)"
  and deleting_keepsPairs:
  "keepsPairs st (st\<lparr>friendships := deleteOne P (friendships st)\<rparr>)"
  by (simp_all add: keepsOrdered_def keepsPairs_def orderedInv_deleteOne pairInv_deleteOne)

lemma sendFriendRequest_keepsOrdered: "always keepsOrdered (sendFriendRequest e u r)"
  unfolding sendFriendRequest_def Let_def
  by (auto intro!: always_intros keepsOrdered_refl creating_keepsOrdered split: option.splits)

lemma acceptFriendRequest_keepsOrdered: "always keepsOrdered (acceptFriendRequest e u r)"
  and acceptFriendRequest_keepsPairs: "always keepsPairs (acceptFriendRequest e u r)"
  unfolding acceptFriendRequest_def Let_def
  by (auto intro!: always_intros keepsOrdered_refl keepsPairs_refl saving_keepsOrdered
        saving_keepsPairs split: option.splits)

lemma rejectFriendRequest_keepsOrdered: "always keepsOrdered (rejectFriendRequest e u r)"
  and rejectFriendRequest_keepsPairs: "always keepsPairs (rejectFriendRequest e u r)"
  unfolding rejectFriendRequest_def Let_def
  by (auto intro!: always_intros keepsOrdered_refl keepsPairs_refl deleting_keepsOrdered
        deleting_keepsPairs split: option.splits)

lemma removeFriend_keepsOrdered: "always keepsOrdered (removeFriend e u f)"
  and removeFriend_keepsPairs: "always keepsPairs (removeFriend e u f)"
  unfolding removeFriend_def
  by (auto intro!: always_intros keepsOrdered_refl keepsPairs_refl deleting_keepsOrdered
        deleting_keepsPairs split: option.splits)

lemma handler_keepsOrdered: "always keepsOrdered (handler e op)"
  by (cases op)
     (simp_all add: sendFriendRequest_keepsOrdered acceptFriendRequest_keepsOrdered
        rejectFriendRequest_keepsOrdered removeFriend_keepsOrdered
        friendships_untouched [THEN always_mono [rotated], OF keepsOrdered_same])

lemma interleave_keepsOrdered: "keepsOrdered st (fst (interleave acts (st, tr, [])))"
proof -
  have "\<forall>p\<in>set ([] :: proc list). always keepsOrdered p" by simp
  from interleave_always [of keepsOrdered, OF keepsOrdered_refl keepsOrdered_trans
         handler_keepsOrdered this]
  show ?thesis .
qed

text \<open>
  \<open>sendFriendRequest\<close> run without interruption creates nothing, or creates a document
  between two users between whom the collection holds no pending or accepted one.
\<close>

lemma sendFriendRequest_complete:
  "friendships (fst (complete (sendFriendRequest e u r) st)) = friendships st
   \<or> (\<exists>a b f. Friendship_create e (friendships st) a b
                 = Inr (friendships (fst (complete (sendFriendRequest e u r) st)), f)
              \<and> (\<forall>x. find (between a b) (friendships st) = Some x \<longrightarrow> \<not> live x))"
proof (cases r)
  case None
  then show ?thesis by (simp add: sendFriendRequest_def proc_defs Let_def)
next
  case (Some rid)
  show ?thesis
  proof (cases "castId e rid")
    case None
    with Some show ?thesis by (simp add: sendFriendRequest_def proc_defs Let_def)
  next
    case b: (Some b)
    show ?thesis
    proof (cases "castId e u")
      case None
      with Some b show ?thesis
        by (simp add: sendFriendRequest_def proc_defs Let_def split: option.splits)
    next
      case a: (Some a)
      show ?thesis
      proof (cases "Friendship_create e (friendships st) a b")
        case (Inl err)
        with Some a b show ?thesis
          by (simp add: sendFriendRequest_def proc_defs Let_def split: option.splits)
      next
        case (Inr p)
        obtain fs f where p: "p = (fs, f)" by (cases p)
        show ?thesis
        proof (cases "\<forall>x. find (between a b) (friendships st) = Some x \<longrightarrow> \<not> live x")
          case True
          have "friendships (fst (complete (sendFriendRequest e u r) st)) = friendships st
                \<or> friendships (fst (complete (sendFriendRequest e u r) st)) = fs"
            using Some a b Inr p
            by (simp add: sendFriendRequest_def proc_defs Let_def split: option.splits)
          with True Inr p show ?thesis by auto
        next
          case False
          then obtain x where "find (between a b) (friendships st) = Some x" "live x" by blast
          with Some a b show ?thesis
            by (auto simp: sendFriendRequest_def proc_defs Let_def live_def split: option.splits)
        qed
      qed
    qed
  qed
qed

lemma sendFriendRequest_keepsPairs:
  "keepsPairs st (fst (complete (sendFriendRequest e u r) st))"
  using sendFriendRequest_complete [of e u r st]
  by (auto simp: keepsPairs_def dest: pairInv_create)

lemma handler_keepsPairs: "keepsPairs st (fst (complete (handler e op) st))"
proof (cases op)
  case (SendFriendRequest u r)
  then show ?thesis by (simp add: sendFriendRequest_keepsPairs)
qed (simp_all add: complete_always [of keepsPairs, OF keepsPairs_refl keepsPairs_trans]
       acceptFriendRequest_keepsPairs rejectFriendRequest_keepsPairs removeFriend_keepsPairs
       friendships_untouched [THEN always_mono [rotated], OF keepsPairs_same])

lemma sequential_keepsPairs: "keepsPairs st (sequential ops st)"
proof (induction ops arbitrary: st)
  case Nil
  show ?case by (simp add: keepsPairs_refl)
next
  case (Cons x ops)
  obtain e op where x: "x = (e, op)" by (cases x)
  have "keepsPairs st (fst (complete (handler e op) st))" by (rule handler_keepsPairs)
  moreover have "keepsPairs (fst (complete (handler e op) st))
                   (sequential ops (fst (complete (handler e op) st)))"
    by (rule Cons.IH)
  ultimately show ?case unfolding x by (simp add: keepsPairs_trans [of st])
qed

text \<open>
  C5, as stated, fails. Alice asks bob and bob asks alice at the same time: each
  \<open>sendFriendRequest\<close> looks for a relationship in either direction and finds none, then each
  creates its document. The unique index is over the ordered pair (requester, recipient),
  so neither insert is refused, and (alice, bob) and (bob, alice) are both stored.
\<close>

theorem crossing_requests_both_stored:
  "map (\<lambda>f. (requester f, recipient f, f_status f))
       (friendships (fst (interleave crossing (no_friends, [], []))))
     = [(alice, bob, Pending), (bob, alice, Pending)]
   \<and> countBetween (friendships (fst (interleave crossing (no_friends, [], [])))) alice bob = 2"
  by (simp add: crossing_def sendFriendRequest_def proc_defs Friendship_create_def between_def
        countBetween_def no_friends_def demo nth_append Let_def)

text \<open>
  C5, amended. Over every run of the system, the phases of the handlers interleaved in any
  order, from a collection without two documents of the same ordered pair (or \<open>_id\<close>),
  there is at most one relationship document per ordered pair (requester, recipient): this
  is what the unique index enforces. Over every run in which each handler finishes before
  the next operation starts, from a collection of pending and accepted documents without
  two of the same unordered pair, there is at most one document between two users,
  whatever the direction: this is what the lookup in \<open>sendFriendRequest\<close> enforces.
\<close>

theorem friendship_records_per_pair:
  "(orderedInv (friendships st)
      \<longrightarrow> countFromTo (friendships (fst (interleave acts (st, tr, [])))) a b \<le> 1)
   \<and> (pairInv (friendships st) \<longrightarrow> countBetween (friendships (sequential ops st)) a b \<le> 1)"
proof -
  have "countFromTo (friendships (fst (interleave acts (st, tr, [])))) a b \<le> 1"
    if "orderedInv (friendships st)"
  proof -
    from interleave_keepsOrdered [of st acts tr] that
    have "orderedInv (friendships (fst (interleave acts (st, tr, []))))"
      by (simp add: keepsOrdered_def)
    then show ?thesis by (rule orderedInv_count)
  qed
  moreover have "countBetween (friendships (sequential ops st)) a b \<le> 1"
    if "pairInv (friendships st)"
  proof -
    from sequential_keepsPairs [of st ops] that
    have "pairInv (friendships (sequential ops st))" by (simp add: keepsPairs_def)
    then show ?thesis by (rule pairInv_count)
  qed
  ultimately show ?thesis by blast
qed

text \<open>
  C5, amended, on the scenario, from the empty collection: the crossing requests leave one
  document in each direction, and the requests made one after the other (asked, declined,
  asked back, accepted) leave one document between alice and bob.
\<close>

theorem friendship_records_per_pair_witness:
  "orderedInv (friendships no_friends) \<and> pairInv (friendships no_friends)
   \<and> countFromTo (friendships (fst (interleave crossing (no_friends, [], [])))) alice bob \<le> 1
   \<and> countFromTo (friendships (fst (interleave crossing (no_friends, [], [])))) bob alice \<le> 1
   \<and> countBetween (friendships (sequential declined no_friends)) alice bob \<le> 1
   \<and> map (\<lambda>f. (requester f, recipient f, f_status f)) (friendships (sequential declined no_friends))
       = [(bob, alice, Accepted)]"
proof -
  have o: "orderedInv (friendships no_friends)" and p: "pairInv (friendships no_friends)"
    by (simp_all add: no_friends_def orderedInv_def pairInv_def)
  from friendship_records_per_pair [of no_friends crossing "[]" alice bob declined] o p
  have 1: "countFromTo (friendships (fst (interleave crossing (no_friends, [], [])))) alice bob \<le> 1"
    and 2: "countBetween (friendships (sequential declined no_friends)) alice bob \<le> 1"
    by blast+
  from friendship_records_per_pair [of no_friends crossing "[]" bob alice declined] o
  have 3: "countFromTo (friendships (fst (interleave crossing (no_friends, [], [])))) bob alice \<le> 1"
    by blast
  have 4: "map (\<lambda>f. (requester f, recipient f, f_status f))
             (friendships (sequential declined no_friends)) = [(bob, alice, Accepted)]"
    by (simp add: declined_def sendFriendRequest_def acceptFriendRequest_def
          rejectFriendRequest_def proc_defs Friendship_create_def Friendship_save_def
          between_def no_friends_def demo Let_def)
  from o p 1 2 3 4 show ?thesis by blast
qed

end
